theory Spec2Isabelle
  imports Complex_Main
begin

section \<open>JavaScript values\<close>

text \<open>
  A JavaScript string is a sequence of UTF-16 code units; \<open>length\<close>, \<open>slice\<close> and
  \<open>split\<close> count code units, so a string is modelled as the list of its code units.
  \<open>js\<close> embeds an ASCII literal.  Numbers are modelled as exact reals; the one place
  where the code can produce \<open>NaN\<close> from well-formed records (a division of zero by zero)
  is modelled with \<open>None\<close>.
\<close>

type_synonym jsstring = "nat list"

definition js :: "string \<Rightarrow> jsstring" where
  "js s = map of_char s"

text \<open>\<open>new Set(xs)\<close>: the distinct elements of \<open>xs\<close> in order of first occurrence.\<close>

definition new_Set :: "'a list \<Rightarrow> 'a list" where
  "new_Set xs = rev (remdups (rev xs))"

text \<open>
  \<open>String.prototype.toLowerCase\<close> is the Unicode case conversion of the runtime.  It is
  not defined here: the functions that call it take it from the environment (\<open>toLowerCase\<close>
  in \<open>Env\<close> below), and what is proved of them holds for every such function.
  \<open>latin1_lower\<close> is what it does on a string whose code units are all below U+0100; the
  examples, which use such strings only, run with it.
\<close>

definition lower_unit :: "nat \<Rightarrow> nat" where
  "lower_unit c =
     (if 65 \<le> c \<and> c \<le> 90 then c + 32
      else if 192 \<le> c \<and> c \<le> 222 \<and> c \<noteq> 215 then c + 32
      else c)"

definition latin1_lower :: "jsstring \<Rightarrow> jsstring" where
  "latin1_lower s = map lower_unit s"

text \<open>
  The order of file names in a sorted directory listing (\<open>strcmp\<close>), on names of code
  units below U+0080: \<open>name_less a b\<close> says that \<open>a\<close> comes before \<open>b\<close>.
\<close>

fun name_less :: "jsstring \<Rightarrow> jsstring \<Rightarrow> bool" where
  "name_less [] [] = False"
| "name_less [] (y # ys) = True"
| "name_less (x # xs) [] = False"
| "name_less (x # xs) (y # ys) = (x < y \<or> (x = y \<and> name_less xs ys))"

text \<open>The code units matched by the regular expression class \<open>\s\<close>.\<close>

definition is_ws :: "nat \<Rightarrow> bool" where
  "is_ws c =
     ((9 \<le> c \<and> c \<le> 13) \<or> c = 32 \<or> c = 160 \<or> c = 5760 \<or> (8192 \<le> c \<and> c \<le> 8202)
      \<or> c = 8232 \<or> c = 8233 \<or> c = 8239 \<or> c = 8287 \<or> c = 12288 \<or> c = 65279)"

text \<open>
  \<open>s.split(/\s+/)\<close>: the pieces between maximal runs of white space.  The flag says
  whether the previous code unit was white space; \<open>cur\<close> is the piece being read.
  The result always has at least one piece (\<open>"".split(/\s+/)\<close> is \<open>[""]\<close>).
\<close>

fun split_ws_acc :: "bool \<Rightarrow> jsstring \<Rightarrow> jsstring \<Rightarrow> jsstring list" where
  "split_ws_acc inws cur [] = [cur]"
| "split_ws_acc inws cur (c # cs) =
     (if is_ws c then (if inws then split_ws_acc True cur cs else cur # split_ws_acc True [] cs)
      else split_ws_acc False (cur @ [c]) cs)"

definition split_ws :: "jsstring \<Rightarrow> jsstring list" where
  "split_ws s = split_ws_acc False [] s"

text \<open>\<open>s.split(sep)\<close> for a separator of one code unit.\<close>

fun split_on_acc :: "nat \<Rightarrow> jsstring \<Rightarrow> jsstring \<Rightarrow> jsstring list" where
  "split_on_acc sep cur [] = [cur]"
| "split_on_acc sep cur (c # cs) =
     (if c = sep then cur # split_on_acc sep [] cs else split_on_acc sep (cur @ [c]) cs)"

definition split_on :: "nat \<Rightarrow> jsstring \<Rightarrow> jsstring list" where
  "split_on sep s = split_on_acc sep [] s"

section \<open>Data model (models/Document.ts)\<close>

datatype Author = AuthorString jsstring | AuthorArray "jsstring list"

record ChangeLogEntry =
  cl_timestamp :: jsstring
  cl_action :: jsstring
  cl_author :: jsstring
  cl_reason :: "jsstring option"
  cl_details :: "(jsstring \<times> jsstring) list option"

record DocumentMetadata =
  doc_id :: jsstring
  created :: jsstring
  updated :: jsstring
  author :: Author
  tags :: "jsstring list"
  prompt_hash :: jsstring
  related_files :: "jsstring list"
  summary :: jsstring
  ultra_summary :: jsstring
  standard_summary :: jsstring
  embedding_model :: jsstring
  version :: jsstring
  merged_from :: "jsstring list option"
  merge_method :: "jsstring option"
  merge_timestamp :: "jsstring option"
  is_merged :: "bool option"
  merge_reviewed :: "bool option"
  merge_reviewer :: "jsstring option"
  quality_score :: "real option"
  freshness_score :: "real option"
  completeness_score :: "real option"
  reference_count :: "real option"
  change_log :: "ChangeLogEntry list option"

text \<open>
  A file path is \<open>path.join(docsDir, name)\<close> or \<open>path.join(archiveDir, name)\<close>, where
  \<open>archiveDir\<close> is the hidden subdirectory \<open>.archive\<close> of \<open>docsDir\<close>.
\<close>

datatype Path = InDocsDir jsstring | InArchiveDir jsstring

record Document =
  metadata :: DocumentMetadata
  content :: jsstring
  file_path :: Path
  vector :: "real list option"

section \<open>The environment\<close>

text \<open>
  Everything the code reads from outside is an oracle of the environment:
  \<^item> \<open>toLowerCase\<close>: \<open>String.prototype.toLowerCase\<close>;
  \<^item> \<open>git_email\<close>: the e-mail address \<open>getGitInfo\<close> returns;
  \<^item> \<open>uuid_at\<close>, \<open>time_at\<close>, \<open>summarize_at\<close>: the value of \<open>uuidv4()\<close>, of
    \<open>new Date().toISOString()\<close> and of \<open>Summarizer.summarize\<close> at the \<open>k\<close>-th reading of
    the outside world;
  \<^item> \<open>read_source\<close>: \<open>fs.readFile\<close> of a source file, \<open>None\<close> when it throws;
  \<^item> \<open>sha256_hex\<close>: the SHA-256 digest in hexadecimal;
  \<^item> \<open>listing_position\<close>: where \<open>readdir\<close> lists a new file name among the names
    already in the directory;
  \<^item> \<open>matter_reparse\<close>: what \<open>matter\<close> reads back after \<open>matter.stringify\<close> was given a
    body that itself begins with a byte-order mark or with the front-matter delimiter (see
    \<open>matter_file\<close> below);
  \<^item> \<open>append_ok\<close>: whether the \<open>k\<close>-th \<open>fs.appendFile\<close> to the audit file succeeds.
\<close>

record Env =
  toLowerCase :: "jsstring \<Rightarrow> jsstring"
  git_email :: jsstring
  uuid_at :: "nat \<Rightarrow> jsstring"
  time_at :: "nat \<Rightarrow> jsstring"
  summarize_at :: "nat \<Rightarrow> jsstring \<Rightarrow> nat \<Rightarrow> jsstring"
  read_source :: "jsstring \<Rightarrow> jsstring option"
  sha256_hex :: "jsstring \<Rightarrow> jsstring"
  listing_position :: "jsstring \<Rightarrow> jsstring list \<Rightarrow> nat"
  matter_reparse :: "DocumentMetadata \<Rightarrow> jsstring \<Rightarrow> DocumentMetadata \<times> jsstring"
  append_ok :: "nat \<Rightarrow> bool"

section \<open>Similarity (DocumentMerger and MCPServer)\<close>

text \<open>\<open>DocumentMerger.calculateFileOverlap\<close>.\<close>

definition calculateFileOverlap :: "jsstring list \<Rightarrow> jsstring list \<Rightarrow> real" where
  "calculateFileOverlap filesA filesB =
     (if length filesA = 0 \<or> length filesB = 0 then 0
      else
        let setA = new_Set filesA;
            setB = new_Set filesB;
            intersection = new_Set (filter (\<lambda>f. f \<in> set setB) setA)
        in real (length intersection) / real (max (length filesA) (length filesB)))"

text \<open>\<open>MCPServer.calculateFileOverlap\<close>, the copy used at creation time.\<close>

definition server_calculateFileOverlap :: "jsstring list \<Rightarrow> jsstring list \<Rightarrow> real" where
  "server_calculateFileOverlap filesA filesB =
     (if length filesA = 0 \<or> length filesB = 0 then 0
      else
        let setA = new_Set filesA;
            setB = new_Set filesB;
            intersection = new_Set (filter (\<lambda>f. f \<in> set setB) setA)
        in real (length intersection) / real (max (length filesA) (length filesB)))"

text \<open>
  The file-overlap ratio in the words of the specification: the size of the intersection of
  the two related-path sets over the size of the larger set, and 0 if either set is empty.
\<close>

definition spec_fileOverlap :: "jsstring list \<Rightarrow> jsstring list \<Rightarrow> real" where
  "spec_fileOverlap filesA filesB =
     (if set filesA = {} \<or> set filesB = {} then 0
      else real (card (set filesA \<inter> set filesB))
             / real (max (card (set filesA)) (card (set filesB))))"

text \<open>\<open>MCPServer.calculateKeywordSimilarity\<close>.  Both word sets have at least one element.\<close>

definition calculateKeywordSimilarity :: "Env \<Rightarrow> jsstring \<Rightarrow> jsstring \<Rightarrow> real" where
  "calculateKeywordSimilarity env textA textB =
     (let wordsA = new_Set (split_ws (toLowerCase env textA));
          wordsB = new_Set (split_ws (toLowerCase env textB));
          intersection = new_Set (filter (\<lambda>w. w \<in> set wordsB) wordsA)
      in real (length intersection) / real (max (length wordsA) (length wordsB)))"

text \<open>
  The tag term of \<open>findSimilarInMemory\<close>:
  \<open>commonTags.length / Math.max(newTags.length, docTags.length)\<close>.
  With two empty tag lists JavaScript computes \<open>0 / 0 = NaN\<close>, here \<open>None\<close>.
\<close>

definition tagSimilarity :: "jsstring list \<Rightarrow> jsstring list \<Rightarrow> real option" where
  "tagSimilarity newTags docTags =
     (let commonTags = filter (\<lambda>tag. tag \<in> set docTags) newTags
      in if max (length newTags) (length docTags) = 0 then None
         else Some (real (length commonTags) / real (max (length newTags) (length docTags))))"

text \<open>
  The body of the loop of \<open>findSimilarInMemory\<close>: the similarity of the new document and a
  cached one, in exact arithmetic.  A \<open>NaN\<close> tag term makes the whole sum \<open>NaN\<close>.  The test
  \<open>similarity >= threshold\<close> that follows it is a comparison of doubles and is not part of
  this model.
\<close>

definition similarityScore :: "Env \<Rightarrow> Document \<Rightarrow> Document \<Rightarrow> real option" where
  "similarityScore env newDoc doc =
     (let fileOverlap = server_calculateFileOverlap (related_files (metadata newDoc))
                          (related_files (metadata doc));
          keywordSim = calculateKeywordSimilarity env (summary (metadata newDoc))
                         (summary (metadata doc))
      in case tagSimilarity (tags (metadata newDoc)) (tags (metadata doc)) of
           None \<Rightarrow> None
         | Some tagSim \<Rightarrow>
             Some (0 + fileOverlap * (6 / 10) + tagSim * (2 / 10) + keywordSim * (2 / 10)))"

section \<open>Detection of similar documents (DocumentMerger)\<close>

datatype Reason = vector_similarity | file_overlap

record DocumentGroup =
  similarity :: real
  documents :: "Document list"
  reason :: Reason

text \<open>
  \<open>calculateVectorSimilarity\<close>.  The vector index is an external collaborator:
  \<open>search query maxResults\<close> gives the (id, score) results, or \<open>None\<close> when the search
  throws, which the code catches and turns into similarity 0.
\<close>

definition calculateVectorSimilarity ::
    "(jsstring \<Rightarrow> nat \<Rightarrow> (jsstring \<times> real) list option) \<Rightarrow> Document \<Rightarrow> Document \<Rightarrow> real" where
  "calculateVectorSimilarity search docA docB =
     (case search (content docA) 10 of
        None \<Rightarrow> 0
      | Some results \<Rightarrow>
          (case find (\<lambda>r. fst r = doc_id (metadata docB)) results of
             Some m \<Rightarrow> snd m
           | None \<Rightarrow> 0))"

text \<open>
  The body of the inner loop of \<open>detectSimilarDocuments\<close>: the groups it pushes.  Scores and
  threshold are the numbers the code is given, and the overlap is the quotient of two list
  lengths, whose double lies on the same side of \<open>0.5\<close> as the exact quotient: the two
  comparisons are those of the code.
\<close>

definition detect_pair ::
    "(jsstring \<Rightarrow> nat \<Rightarrow> (jsstring \<times> real) list option) \<Rightarrow> real \<Rightarrow> Document \<Rightarrow> Document
      \<Rightarrow> DocumentGroup list" where
  "detect_pair search threshold docA docB =
     (let vectorSim = calculateVectorSimilarity search docA docB;
          fileOverlap = calculateFileOverlap (related_files (metadata docA))
                          (related_files (metadata docB))
      in if vectorSim \<ge> threshold \<or> fileOverlap \<ge> 5 / 10
         then [\<lparr>similarity = vectorSim, documents = [docA, docB],
                 reason = (if vectorSim \<ge> threshold then vector_similarity else file_overlap)\<rparr>]
         else [])"

text \<open>The two nested loops over \<open>i < j\<close>.\<close>

definition scan_pairs ::
    "(jsstring \<Rightarrow> nat \<Rightarrow> (jsstring \<times> real) list option) \<Rightarrow> real \<Rightarrow> Document list
      \<Rightarrow> DocumentGroup list" where
  "scan_pairs search threshold allDocs =
     concat (map (\<lambda>i. concat (map (\<lambda>j. detect_pair search threshold (allDocs ! i) (allDocs ! j))
                                  [i + 1 ..< length allDocs]))
                 [0 ..< length allDocs])"

text \<open>
  \<open>mergeGroups\<close>.  \<open>add_missing\<close> is the innermost loop (push the documents of the other
  group that are not yet in the current one), \<open>absorb\<close> the body of the loop over \<open>j\<close>,
  \<open>merge_from\<close> the body of the loop over \<open>i\<close>.  The groups are fresh objects, so the
  in-place update of \<open>currentGroup\<close> is a local value here.
\<close>

definition add_missing ::
    "Document \<Rightarrow> DocumentGroup \<times> jsstring list \<Rightarrow> DocumentGroup \<times> jsstring list" where
  "add_missing doc s =
     (case s of (currentGroup, currentDocIds) \<Rightarrow>
        if doc_id (metadata doc) \<notin> set currentDocIds
        then (currentGroup\<lparr>documents := documents currentGroup @ [doc]\<rparr>,
              currentDocIds @ [doc_id (metadata doc)])
        else s)"

definition absorb ::
    "DocumentGroup list \<Rightarrow> nat \<Rightarrow> DocumentGroup \<times> jsstring list \<times> nat set
      \<Rightarrow> DocumentGroup \<times> jsstring list \<times> nat set" where
  "absorb groups j s =
     (case s of (currentGroup, currentDocIds, processed) \<Rightarrow>
        if j \<in> processed then s
        else
          let otherGroup = groups ! j;
              hasCommonDoc = list_ex (\<lambda>d. doc_id (metadata d) \<in> set currentDocIds)
                               (documents otherGroup)
          in if hasCommonDoc
             then (case fold add_missing (documents otherGroup) (currentGroup, currentDocIds) of
                     (g, ids) \<Rightarrow>
                       (g\<lparr>similarity := max (similarity g) (similarity otherGroup)\<rparr>, ids,
                        insert j processed))
             else s)"

definition merge_from ::
    "DocumentGroup list \<Rightarrow> nat \<Rightarrow> DocumentGroup list \<times> nat set \<Rightarrow> DocumentGroup list \<times> nat set" where
  "merge_from groups i s =
     (case s of (merged, processed) \<Rightarrow>
        if i \<in> processed then s
        else
          let currentGroup = groups ! i;
              currentDocIds = new_Set (map (\<lambda>d. doc_id (metadata d)) (documents currentGroup))
          in case fold (absorb groups) [i + 1 ..< length groups]
                    (currentGroup, currentDocIds, processed) of
               (g, ids, processed') \<Rightarrow> (merged @ [g], insert i processed'))"

definition mergeGroups :: "DocumentGroup list \<Rightarrow> DocumentGroup list" where
  "mergeGroups groups =
     (if length groups \<le> 1 then groups
      else fst (fold (merge_from groups) [0 ..< length groups] ([], {})))"

section \<open>Quality score (QualityManager)\<close>

record QualityScores =
  freshness :: real
  completeness :: real
  references :: real
  total :: real

text \<open>
  \<open>calculateQualityScore\<close>.  \<open>now\<close> is \<open>Date.now()\<close> and \<open>getTime s\<close> is
  \<open>new Date(s).getTime()\<close>, both in milliseconds; a \<open>created\<close> text that does not parse
  (\<open>NaN\<close>) is outside the model.
\<close>

definition calculateQualityScore :: "real \<Rightarrow> (jsstring \<Rightarrow> real) \<Rightarrow> Document \<Rightarrow> QualityScores" where
  "calculateQualityScore now getTime doc =
     (let ageInDays = (now - getTime (created (metadata doc))) / (1000 * 60 * 60 * 24);
          freshness = max 0 (100 - ageInDays);
          completeness = 0
            + (if length (summary (metadata doc)) > 10 then 40 else 0)
            + (if length (tags (metadata doc)) > 0 then 30 else 0)
            + (if length (related_files (metadata doc)) > 0 then 30 else 0);
          references = (case reference_count (metadata doc) of None \<Rightarrow> 0 | Some r \<Rightarrow> r);
          total = freshness * (4 / 10) + completeness * (4 / 10) + references * (2 / 10)
      in \<lparr>freshness = freshness, completeness = completeness, references = references,
          total = total\<rparr>)"

section \<open>The record store (DocumentManager)\<close>

text \<open>
  The documents directory and its hidden subdirectory \<open>.archive\<close> are lists of entries
  (file name, parsed file) in the order \<open>readdir\<close> lists them; a parsed file is what
  \<open>matter\<close> reads back from the file: the metadata and the body.  File-system calls on
  these directories are taken to succeed; the errors of the model are the ones the code
  throws itself.

  \<open>ticks\<close> counts the readings of the outside world made so far; it indexes the
  generated UUIDs, the clock and the summarizer.
\<close>

type_synonym StoredFile = "DocumentMetadata \<times> jsstring"

type_synonym Directory = "(jsstring \<times> StoredFile) list"

record Store =
  docs_dir :: Directory
  archive_dir :: Directory
  ticks :: nat

datatype error =
    DocumentNotFound jsstring
  | AtLeastTwoRequired
  | NoDocumentsProvided
  | AppendFailed

record CreateDocParams =
  cp_files :: "jsstring list"
  cp_prompt :: jsstring
  cp_summary :: "jsstring option"

definition tick :: "Store \<Rightarrow> Store" where
  "tick st = st\<lparr>ticks := ticks st + 1\<rparr>"

text \<open>\<open>new Date().toISOString()\<close>, \<open>uuidv4()\<close> and \<open>Summarizer.summarize\<close>.\<close>

definition now_iso :: "Env \<Rightarrow> Store \<Rightarrow> jsstring \<times> Store" where
  "now_iso env st = (time_at env (ticks st), tick st)"

definition uuidv4 :: "Env \<Rightarrow> Store \<Rightarrow> jsstring \<times> Store" where
  "uuidv4 env st = (uuid_at env (ticks st), tick st)"

definition summarize :: "Env \<Rightarrow> jsstring \<Rightarrow> nat \<Rightarrow> Store \<Rightarrow> jsstring \<times> Store" where
  "summarize env text maxLength st = (summarize_at env (ticks st) text maxLength, tick st)"

text \<open>\<open>fs.writeFile\<close>, \<open>fs.unlink\<close> and the two halves of \<open>fs.rename\<close> on a directory.\<close>

text \<open>
  Writing a file that exists replaces its contents where it is listed; a new file is listed
  at position \<open>k\<close> (at the end if \<open>k\<close> is beyond it).
\<close>

definition write_entry :: "nat \<Rightarrow> jsstring \<Rightarrow> StoredFile \<Rightarrow> Directory \<Rightarrow> Directory" where
  "write_entry k name f dir =
     (if name \<in> set (map fst dir) then map (\<lambda>e. if fst e = name then (name, f) else e) dir
      else take k dir @ [(name, f)] @ drop k dir)"

definition create_entry :: "Env \<Rightarrow> jsstring \<Rightarrow> StoredFile \<Rightarrow> Directory \<Rightarrow> Directory" where
  "create_entry env name f dir = write_entry (listing_position env name (map fst dir)) name f dir"

definition remove_entry :: "jsstring \<Rightarrow> Directory \<Rightarrow> Directory" where
  "remove_entry name dir = filter (\<lambda>e. fst e \<noteq> name) dir"

definition write_file :: "Env \<Rightarrow> Path \<Rightarrow> StoredFile \<Rightarrow> Store \<Rightarrow> Store" where
  "write_file env p f st =
     (case p of
        InDocsDir name \<Rightarrow> st\<lparr>docs_dir := create_entry env name f (docs_dir st)\<rparr>
      | InArchiveDir name \<Rightarrow> st\<lparr>archive_dir := create_entry env name f (archive_dir st)\<rparr>)"

text \<open>
  The file that \<open>createMarkdown\<close>, that is \<open>matter.stringify(content, metadata)\<close>, writes,
  as \<open>matter\<close> reads it back.  Every metadata value is written so that it reads back as it
  was.  The body is ended by a line feed if it has none
  (\<open>str.slice(-1) !== '\n' ? str + '\n' : str\<close>).  \<open>matter.stringify\<close> first reads the
  body it is given as a file of its own: a byte-order mark (U+FEFF) at its head is dropped
  and a body that begins with the delimiter \<open>---\<close> is taken apart as front matter.  What
  the file holds in these two cases is left to the environment.
\<close>

definition matter_newline :: "jsstring \<Rightarrow> jsstring" where
  "matter_newline str = (if str \<noteq> [] \<and> last str = 10 then str else str @ [10])"

definition matter_file :: "Env \<Rightarrow> DocumentMetadata \<Rightarrow> jsstring \<Rightarrow> StoredFile" where
  "matter_file env md body =
     (if take 1 body = [65279] \<or> take 3 body = js ''---'' then matter_reparse env md body
      else (md, matter_newline body))"

definition basename :: "Path \<Rightarrow> jsstring" where
  "basename p = (case p of InDocsDir name \<Rightarrow> name | InArchiveDir name \<Rightarrow> name)"

text \<open>\<open>file.startsWith('.')\<close>\<close>

definition hidden :: "jsstring \<Rightarrow> bool" where
  "hidden file = (take 1 file = [46])"

subsection \<open>MetadataExtractor\<close>

text \<open>The stop words of \<open>extractKeywords\<close>: fourteen Japanese particles and verbs.\<close>

definition stopWords :: "jsstring list" where
  "stopWords =
     [[12434], [12398], [12395], [12399], [12364], [12391], [12392], [12363, 12425],
      [12414, 12391], [23455, 35013], [20316, 25104], [36861, 21152], [12377, 12427],
      [12375, 12383]]"

text \<open>The frequency \<open>Map\<close> of \<open>extractKeywords\<close>, in insertion order.\<close>

definition count_word :: "jsstring \<Rightarrow> (jsstring \<times> nat) list \<Rightarrow> (jsstring \<times> nat) list" where
  "count_word word freq =
     (if word \<in> set (map fst freq)
      then map (\<lambda>e. if fst e = word then (word, snd e + 1) else e) freq
      else freq @ [(word, 0 + 1)])"

definition extractKeywords :: "Env \<Rightarrow> jsstring \<Rightarrow> jsstring list" where
  "extractKeywords env text =
     (let words = filter (\<lambda>word. length word > 2 \<and> word \<notin> set stopWords)
                    (split_ws (toLowerCase env text));
          freq = fold count_word words []
      in take 5 (map fst (sort_key (\<lambda>entry. - int (snd entry)) freq)))"

text \<open>The tags that \<open>generateTags\<close> adds for one file path.\<close>

definition file_tags :: "jsstring \<Rightarrow> jsstring list" where
  "file_tags file =
     (let parts = split_on 47 file;
          dirTag = (if length parts > 1 \<and> parts ! 1 \<noteq> [] then [parts ! 1] else []);
          fileName = last parts;
          baseTag = (if fileName \<noteq> []
                     then (case split_on 46 fileName of
                             baseName # rest \<Rightarrow> (if baseName \<noteq> [] then [baseName] else [])
                           | [] \<Rightarrow> [])
                     else [])
      in dirTag @ baseTag)"

definition generateTags :: "Env \<Rightarrow> jsstring \<Rightarrow> jsstring list \<Rightarrow> jsstring list" where
  "generateTags env prompt files =
     take 10 (new_Set (extractKeywords env prompt @ concat (map file_tags files)))"

definition generatePromptHash :: "Env \<Rightarrow> jsstring \<Rightarrow> jsstring" where
  "generatePromptHash env prompt = js ''sha256:'' @ sha256_hex env prompt"

subsection \<open>DocumentManager\<close>

definition generateMetadata ::
    "Env \<Rightarrow> jsstring list \<Rightarrow> jsstring \<Rightarrow> Store \<Rightarrow> DocumentMetadata \<times> Store" where
  "generateMetadata env files prompt st =
     (let (i, st1) = uuidv4 env st;
          (c, st2) = now_iso env st1;
          (u, st3) = now_iso env st2
      in (\<lparr>doc_id = i, created = c, updated = u, author = AuthorString (git_email env),
           tags = generateTags env prompt files, prompt_hash = generatePromptHash env prompt,
           related_files = files, summary = [], ultra_summary = [], standard_summary = [],
           embedding_model = js ''nomic-embed-text'', version = js ''1.0'',
           merged_from = None, merge_method = None, merge_timestamp = None, is_merged = None,
           merge_reviewed = None, merge_reviewer = None, quality_score = None,
           freshness_score = None, completeness_score = None, reference_count = None,
           change_log = None\<rparr>, st3))"

text \<open>
  \<open>generateContent\<close>.  The headings are Japanese text, given by their code units; a
  source file that cannot be read is skipped.
\<close>

definition file_preview :: "Env \<Rightarrow> jsstring \<Rightarrow> jsstring" where
  "file_preview env file =
     (case read_source env file of
        None \<Rightarrow> []
      | Some fileContent \<Rightarrow>
          js ''### '' @ file @ [10, 10, 96, 96, 96, 10] @ take 500 fileContent
            @ [10, 46, 46, 46, 10, 96, 96, 96, 10, 10])"

definition generateContent :: "Env \<Rightarrow> jsstring list \<Rightarrow> jsstring \<Rightarrow> jsstring" where
  "generateContent env files prompt =
     [35, 35, 32, 23455, 35013, 27010, 35201, 10, 10] @ prompt @ [10, 10]
       @ [35, 35, 32, 23455, 35013, 35443, 32048, 10, 10]
       @ concat (map (file_preview env) files)
       @ [35, 35, 32, 22793, 26356, 12501, 12449, 12452, 12523, 10, 10]
       @ concat (map (\<lambda>file. [45, 32, 96] @ file @ [96, 10]) files)"

text \<open>\<open>s.replace(/[^a-z0-9]+/g, '-')\<close>: each maximal run of other code units becomes one \<open>-\<close>.\<close>

definition is_slug_unit :: "nat \<Rightarrow> bool" where
  "is_slug_unit c = ((97 \<le> c \<and> c \<le> 122) \<or> (48 \<le> c \<and> c \<le> 57))"

fun slug_acc :: "bool \<Rightarrow> jsstring \<Rightarrow> jsstring" where
  "slug_acc inrun [] = []"
| "slug_acc inrun (c # cs) =
     (if is_slug_unit c then c # slug_acc False cs
      else if inrun then slug_acc True cs
      else 45 # slug_acc True cs)"

definition first_piece :: "nat \<Rightarrow> jsstring \<Rightarrow> jsstring" where
  "first_piece sep s = (case split_on sep s of p # rest \<Rightarrow> p | [] \<Rightarrow> [])"

definition generateFileName :: "Env \<Rightarrow> DocumentMetadata \<Rightarrow> jsstring" where
  "generateFileName env md =
     (let date = first_piece 84 (created md);
          uuid = first_piece 45 (doc_id md);
          slug = take 30 (slug_acc False (toLowerCase env (summary md)))
      in date @ js ''_'' @ uuid @ js ''_'' @ slug @ js ''.md'')"

definition createDocument :: "Env \<Rightarrow> CreateDocParams \<Rightarrow> Store \<Rightarrow> Document \<times> Store" where
  "createDocument env params st =
     (let (metadata0, st1) = generateMetadata env (cp_files params) (cp_prompt params) st;
          content1 = generateContent env (cp_files params) (cp_prompt params);
          (summary1, st2) =
             (case cp_summary params of
                None \<Rightarrow> summarize env content1 100 st1
              | Some customSummary \<Rightarrow>
                  if customSummary \<noteq> [] then (customSummary, st1)
                  else summarize env content1 100 st1);
          (ultra, st3) = summarize env content1 50 st2;
          (standard, st4) = summarize env content1 200 st3;
          metadata1 = metadata0\<lparr>summary := summary1, ultra_summary := ultra,
                                standard_summary := standard\<rparr>;
          fileName = generateFileName env metadata1;
          st5 = write_file env (InDocsDir fileName) (matter_file env metadata1 content1) st4
      in (\<lparr>metadata = metadata1, content = content1, file_path = InDocsDir fileName,
           vector = None\<rparr>, st5))"

fun find_document :: "jsstring \<Rightarrow> Directory \<Rightarrow> Document option" where
  "find_document i [] = None"
| "find_document i (entry # files) =
     (if hidden (fst entry) then find_document i files
      else if doc_id (fst (snd entry)) = i
      then Some \<lparr>metadata = fst (snd entry), content = snd (snd entry),
                  file_path = InDocsDir (fst entry), vector = None\<rparr>
      else find_document i files)"

definition getDocument :: "jsstring \<Rightarrow> Store \<Rightarrow> Document option" where
  "getDocument i st = find_document i (docs_dir st)"

text \<open>\<open>s.includes(k)\<close>: \<open>k\<close> occurs in \<open>s\<close> as a contiguous piece.\<close>

fun js_includes :: "jsstring \<Rightarrow> jsstring \<Rightarrow> bool" where
  "js_includes [] k = (k = [])"
| "js_includes (c # cs) k = (take (length k) (c # cs) = k \<or> js_includes cs k)"

record SearchQuery =
  keyword :: "jsstring option"
  query_tags :: "jsstring list option"

text \<open>
  \<open>searchDocuments\<close>.  \<open>search_entry\<close> is the body of the loop over the files;
  \<open>getTime s\<close> is \<open>new Date(s).getTime()\<close>, and the sort is stable, newest first.
\<close>

definition search_entry :: "Env \<Rightarrow> SearchQuery \<Rightarrow> jsstring \<times> StoredFile \<Rightarrow> Document list" where
  "search_entry env query entry =
     (if hidden (fst entry) then []
      else if (case keyword query of
                 None \<Rightarrow> False
               | Some k \<Rightarrow>
                   k \<noteq> []
                   \<and> \<not> js_includes (toLowerCase env (summary (fst (snd entry)))) (toLowerCase env k)
                   \<and> \<not> js_includes (toLowerCase env (snd (snd entry))) (toLowerCase env k))
      then []
      else if (case query_tags query of
                 None \<Rightarrow> False
               | Some ts \<Rightarrow>
                   length ts > 0 \<and> \<not> list_ex (\<lambda>tag. tag \<in> set (tags (fst (snd entry)))) ts)
      then []
      else [\<lparr>metadata = fst (snd entry), content = snd (snd entry),
              file_path = InDocsDir (fst entry), vector = None\<rparr>])"

definition searchDocuments ::
    "Env \<Rightarrow> (jsstring \<Rightarrow> real) \<Rightarrow> SearchQuery \<Rightarrow> Store \<Rightarrow> Document list" where
  "searchDocuments env getTime query st =
     sort_key (\<lambda>d. - getTime (created (metadata d)))
       (concat (map (search_entry env query) (docs_dir st)))"

text \<open>The ids of the files that \<open>getDocument\<close> reads: those of the entries that are not hidden.\<close>

definition active_ids :: "Directory \<Rightarrow> jsstring list" where
  "active_ids dir = map (\<lambda>e. doc_id (fst (snd e))) (filter (\<lambda>e. \<not> hidden (fst e)) dir)"

text \<open>
  \<open>Partial<DocumentMetadata>\<close>: each key present or absent.  \<open>{...m, ...updates}\<close> takes
  the keys that are present from \<open>updates\<close>.
\<close>

record MetadataPatch =
  p_doc_id :: "jsstring option"
  p_created :: "jsstring option"
  p_updated :: "jsstring option"
  p_author :: "Author option"
  p_tags :: "jsstring list option"
  p_prompt_hash :: "jsstring option"
  p_related_files :: "jsstring list option"
  p_summary :: "jsstring option"
  p_ultra_summary :: "jsstring option"
  p_standard_summary :: "jsstring option"
  p_embedding_model :: "jsstring option"
  p_version :: "jsstring option"
  p_merged_from :: "jsstring list option"
  p_merge_method :: "jsstring option"
  p_merge_timestamp :: "jsstring option"
  p_is_merged :: "bool option"
  p_merge_reviewed :: "bool option"
  p_merge_reviewer :: "jsstring option"
  p_quality_score :: "real option"
  p_freshness_score :: "real option"
  p_completeness_score :: "real option"
  p_reference_count :: "real option"
  p_change_log :: "ChangeLogEntry list option"

definition spread :: "'a \<Rightarrow> 'a option \<Rightarrow> 'a" where
  "spread old new = (case new of None \<Rightarrow> old | Some v \<Rightarrow> v)"

definition spread_opt :: "'a option \<Rightarrow> 'a option \<Rightarrow> 'a option" where
  "spread_opt old new = (case new of None \<Rightarrow> old | Some v \<Rightarrow> Some v)"

definition apply_patch :: "MetadataPatch \<Rightarrow> DocumentMetadata \<Rightarrow> DocumentMetadata" where
  "apply_patch p m =
     \<lparr>doc_id = spread (doc_id m) (p_doc_id p),
      created = spread (created m) (p_created p),
      updated = spread (updated m) (p_updated p),
      author = spread (author m) (p_author p),
      tags = spread (tags m) (p_tags p),
      prompt_hash = spread (prompt_hash m) (p_prompt_hash p),
      related_files = spread (related_files m) (p_related_files p),
      summary = spread (summary m) (p_summary p),
      ultra_summary = spread (ultra_summary m) (p_ultra_summary p),
      standard_summary = spread (standard_summary m) (p_standard_summary p),
      embedding_model = spread (embedding_model m) (p_embedding_model p),
      version = spread (version m) (p_version p),
      merged_from = spread_opt (merged_from m) (p_merged_from p),
      merge_method = spread_opt (merge_method m) (p_merge_method p),
      merge_timestamp = spread_opt (merge_timestamp m) (p_merge_timestamp p),
      is_merged = spread_opt (is_merged m) (p_is_merged p),
      merge_reviewed = spread_opt (merge_reviewed m) (p_merge_reviewed p),
      merge_reviewer = spread_opt (merge_reviewer m) (p_merge_reviewer p),
      quality_score = spread_opt (quality_score m) (p_quality_score p),
      freshness_score = spread_opt (freshness_score m) (p_freshness_score p),
      completeness_score = spread_opt (completeness_score m) (p_completeness_score p),
      reference_count = spread_opt (reference_count m) (p_reference_count p),
      change_log = spread_opt (change_log m) (p_change_log p)\<rparr>"

definition patch_of :: "DocumentMetadata \<Rightarrow> MetadataPatch" where
  "patch_of m =
     \<lparr>p_doc_id = Some (doc_id m),
      p_created = Some (created m),
      p_updated = Some (updated m),
      p_author = Some (author m),
      p_tags = Some (tags m),
      p_prompt_hash = Some (prompt_hash m),
      p_related_files = Some (related_files m),
      p_summary = Some (summary m),
      p_ultra_summary = Some (ultra_summary m),
      p_standard_summary = Some (standard_summary m),
      p_embedding_model = Some (embedding_model m),
      p_version = Some (version m),
      p_merged_from = merged_from m,
      p_merge_method = merge_method m,
      p_merge_timestamp = merge_timestamp m,
      p_is_merged = is_merged m,
      p_merge_reviewed = merge_reviewed m,
      p_merge_reviewer = merge_reviewer m,
      p_quality_score = quality_score m,
      p_freshness_score = freshness_score m,
      p_completeness_score = completeness_score m,
      p_reference_count = reference_count m,
      p_change_log = change_log m\<rparr>"

definition empty_patch :: MetadataPatch where
  "empty_patch =
     \<lparr>p_doc_id = None,
      p_created = None,
      p_updated = None,
      p_author = None,
      p_tags = None,
      p_prompt_hash = None,
      p_related_files = None,
      p_summary = None,
      p_ultra_summary = None,
      p_standard_summary = None,
      p_embedding_model = None,
      p_version = None,
      p_merged_from = None,
      p_merge_method = None,
      p_merge_timestamp = None,
      p_is_merged = None,
      p_merge_reviewed = None,
      p_merge_reviewer = None,
      p_quality_score = None,
      p_freshness_score = None,
      p_completeness_score = None,
      p_reference_count = None,
      p_change_log = None\<rparr>"

definition updateDocument ::
    "Env \<Rightarrow> jsstring \<Rightarrow> MetadataPatch \<Rightarrow> Store \<Rightarrow> (error + Document) \<times> Store" where
  "updateDocument env i updates st =
     (case getDocument i st of
        None \<Rightarrow> (Inl (DocumentNotFound i), st)
      | Some doc \<Rightarrow>
          let (u, st1) = now_iso env st;
              updatedMetadata = (apply_patch updates (metadata doc))\<lparr>updated := u\<rparr>;
              st2 = write_file env (file_path doc) (matter_file env updatedMetadata (content doc)) st1
          in (Inr (doc\<lparr>metadata := updatedMetadata\<rparr>), st2))"

definition deleteDocument :: "jsstring \<Rightarrow> Store \<Rightarrow> (error + unit) \<times> Store" where
  "deleteDocument i st =
     (case getDocument i st of
        None \<Rightarrow> (Inl (DocumentNotFound i), st)
      | Some doc \<Rightarrow>
          (Inr (), st\<lparr>docs_dir := remove_entry (basename (file_path doc)) (docs_dir st)\<rparr>))"

text \<open>\<open>archiveDocument\<close>: \<open>fs.rename\<close> moves the file into the archive directory.\<close>

definition archiveDocument :: "Env \<Rightarrow> jsstring \<Rightarrow> Store \<Rightarrow> (error + unit) \<times> Store" where
  "archiveDocument env i st =
     (case getDocument i st of
        None \<Rightarrow> (Inl (DocumentNotFound i), st)
      | Some doc \<Rightarrow>
          let fileName = basename (file_path doc)
          in (Inr (), st\<lparr>docs_dir := remove_entry fileName (docs_dir st),
                         archive_dir := create_entry env fileName (metadata doc, content doc)
                                          (archive_dir st)\<rparr>))"

section \<open>Merging (DocumentMerger)\<close>

definition getAllActiveDocuments :: "Env \<Rightarrow> (jsstring \<Rightarrow> real) \<Rightarrow> Store \<Rightarrow> Document list" where
  "getAllActiveDocuments env getTime st =
     searchDocuments env getTime \<lparr>keyword = None, query_tags = None\<rparr> st"

text \<open>\<open>detectSimilarDocuments\<close>: the scan over all active documents, then \<open>mergeGroups\<close>.\<close>

definition detectSimilarDocuments ::
    "Env \<Rightarrow> (jsstring \<Rightarrow> nat \<Rightarrow> (jsstring \<times> real) list option) \<Rightarrow> (jsstring \<Rightarrow> real) \<Rightarrow> real
      \<Rightarrow> Store \<Rightarrow> DocumentGroup list" where
  "detectSimilarDocuments env search getTime threshold st =
     mergeGroups (scan_pairs search threshold (getAllActiveDocuments env getTime st))"

record MergedMetadata =
  mm_related_files :: "jsstring list"
  mm_summary :: jsstring
  mm_tags :: "jsstring list"

text \<open>The text \<open>"\<dots>: "\<close> that prefixes the prompt and the summary of a merged record.\<close>

definition merge_prefix :: jsstring where
  "merge_prefix = [32113, 21512, 58, 32]"

definition createMergedMetadata :: "Document list \<Rightarrow> error + MergedMetadata" where
  "createMergedMetadata docs =
     (case docs of
        [] \<Rightarrow> Inl NoDocumentsProvided
      | firstDoc # rest \<Rightarrow>
          Inr \<lparr>mm_related_files = new_Set (concat (map (\<lambda>d. related_files (metadata d)) docs)),
               mm_summary = merge_prefix @ summary (metadata firstDoc),
               mm_tags = new_Set (concat (map (\<lambda>d. tags (metadata d)) docs))\<rparr>)"

fun join :: "jsstring \<Rightarrow> jsstring list \<Rightarrow> jsstring" where
  "join sep [] = []"
| "join sep [x] = x"
| "join sep (x # y # ys) = x @ sep @ join sep (y # ys)"

definition author_list :: "Author \<Rightarrow> jsstring list" where
  "author_list a = (case a of AuthorString s \<Rightarrow> [s] | AuthorArray xs \<Rightarrow> xs)"

text \<open>
  \<open>mergeDocuments\<close>.  \<open>unifyWithAI\<close> is one call of the summarizer whose result the code
  does not use.  The document returned is the one \<open>createDocument\<close> returned, with the merge
  fields set on it; the result of \<open>updateDocument\<close> is not used.
\<close>

definition mergeDocuments :: "Env \<Rightarrow> Document list \<Rightarrow> Store \<Rightarrow> (error + Document) \<times> Store" where
  "mergeDocuments env docs st =
     (if length docs < 2 then (Inl AtLeastTwoRequired, st)
      else
        let st1 = tick st
        in case createMergedMetadata docs of
             Inl e \<Rightarrow> (Inl e, st1)
           | Inr md \<Rightarrow>
               let (merged, st2) =
                     createDocument env
                       \<lparr>cp_files = mm_related_files md,
                        cp_prompt = merge_prefix @ join (js '', '') (map (\<lambda>d. summary (metadata d)) docs),
                        cp_summary = Some (mm_summary md)\<rparr> st1;
                   (ts, st3) = now_iso env st2;
                   metadata1 = (metadata merged)
                     \<lparr>author := AuthorArray (new_Set (concat (map (\<lambda>d. author_list (author (metadata d))) docs))),
                      merged_from := Some (map (\<lambda>d. doc_id (metadata d)) docs),
                      merge_method := Some (js ''ai_unified''),
                      merge_timestamp := Some ts,
                      is_merged := Some True\<rparr>
               in case updateDocument env (doc_id metadata1) (patch_of metadata1) st3 of
                    (Inl e, st4) \<Rightarrow> (Inl e, st4)
                  | (Inr updatedDoc, st4) \<Rightarrow> (Inr (merged\<lparr>metadata := metadata1\<rparr>), st4))"

text \<open>
  One round of the loop of \<open>executeMerge\<close> on the record store: merge the group, then
  archive every source.  (The loop also updates the vector index, a separate store.)
\<close>

fun archive_sources :: "Env \<Rightarrow> Document list \<Rightarrow> Store \<Rightarrow> (error + unit) \<times> Store" where
  "archive_sources env [] st = (Inr (), st)"
| "archive_sources env (doc # docs) st =
     (case archiveDocument env (doc_id (metadata doc)) st of
        (Inl e, st1) \<Rightarrow> (Inl e, st1)
      | (Inr u, st1) \<Rightarrow> archive_sources env docs st1)"

definition executeMerge_group :: "Env \<Rightarrow> DocumentGroup \<Rightarrow> Store \<Rightarrow> (error + Document) \<times> Store" where
  "executeMerge_group env grp st =
     (case mergeDocuments env (documents grp) st of
        (Inl e, st1) \<Rightarrow> (Inl e, st1)
      | (Inr merged, st1) \<Rightarrow>
          (case archive_sources env (documents grp) st1 of
             (Inl e, st2) \<Rightarrow> (Inl e, st2)
           | (Inr u, st2) \<Rightarrow> (Inr merged, st2)))"

section \<open>Integrity recovery (IntegrityChecker, AuditLogger)\<close>

datatype Impact = low | medium | high

datatype Detail = DetailString jsstring | DetailBool bool | DetailNumber nat

record AuditLogEntry =
  timestamp :: jsstring
  action :: jsstring
  actor :: jsstring
  details :: "(jsstring \<times> Detail) list"
  impact :: Impact

text \<open>
  The issue type is one of three literals; \<open>other_type\<close> stands for anything else, which the
  \<open>default\<close> branch of \<open>recover\<close> receives.
\<close>

datatype IssueType = invalid_metadata | incomplete_operation | file_memory_mismatch | other_type

record IntegrityIssue =
  issue_type :: IssueType
  docId :: "jsstring option"
  operation :: "jsstring option"
  issue_details :: "(jsstring \<times> Detail) list"

record RecoveryResult =
  total :: nat
  recovered :: nat

text \<open>
  The state of the checker: its metadata cache (a \<open>Map\<close> from ids to metadata), the audit
  trail written so far, the number of appends to the audit file attempted so far, and the
  number of clock readings.  \<open>append_ok env k\<close> says whether the \<open>k\<close>-th \<open>fs.appendFile\<close>
  succeeds.  Rotation of the audit file swallows its own errors and is not modelled.
\<close>

record Checker =
  documentCache :: "jsstring \<rightharpoonup> DocumentMetadata"
  audit_trail :: "AuditLogEntry list"
  appends :: nat
  clock_reads :: nat

definition checker_now :: "Env \<Rightarrow> Checker \<Rightarrow> jsstring \<times> Checker" where
  "checker_now env st = (time_at env (clock_reads st), st\<lparr>clock_reads := clock_reads st + 1\<rparr>)"

text \<open>\<open>AuditLogger.log\<close>\<close>

definition audit_log :: "Env \<Rightarrow> AuditLogEntry \<Rightarrow> Checker \<Rightarrow> (error + unit) \<times> Checker" where
  "audit_log env entry st =
     (if append_ok env (appends st)
      then (Inr (), st\<lparr>audit_trail := audit_trail st @ [entry], appends := appends st + 1\<rparr>)
      else (Inl AppendFailed, st\<lparr>appends := appends st + 1\<rparr>))"

text \<open>\<open>documentCache.get(docId)\<close>; an issue without \<open>docId\<close> finds nothing.\<close>

definition cache_get :: "jsstring option \<Rightarrow> Checker \<Rightarrow> (jsstring \<times> DocumentMetadata) option" where
  "cache_get i st =
     (case i of
        None \<Rightarrow> None
      | Some k \<Rightarrow> (case documentCache st k of None \<Rightarrow> None | Some m \<Rightarrow> Some (k, m)))"

definition cache_set :: "jsstring \<Rightarrow> DocumentMetadata \<Rightarrow> Checker \<Rightarrow> Checker" where
  "cache_set k m st = st\<lparr>documentCache := (documentCache st)(k \<mapsto> m)\<rparr>"

text \<open>
  \<open>fixMetadata\<close>.  The cached object is changed in place, so the cache holds the repaired
  metadata even when the audit entry cannot be written.  A missing field is an empty text.
\<close>

definition fixMetadata :: "Env \<Rightarrow> jsstring option \<Rightarrow> Checker \<Rightarrow> (error + unit) \<times> Checker" where
  "fixMetadata env i st =
     (case cache_get i st of
        None \<Rightarrow> (Inr (), st)
      | Some (k, m0) \<Rightarrow>
          let (m1, st1) =
                (if created m0 = [] then (case checker_now env st of (t, s) \<Rightarrow> (m0\<lparr>created := t\<rparr>, s))
                 else (m0, st));
              (m2, st2) =
                (if updated m1 = []
                 then (if created m1 \<noteq> [] then (m1\<lparr>updated := created m1\<rparr>, st1)
                       else (case checker_now env st1 of (t, s) \<Rightarrow> (m1\<lparr>updated := t\<rparr>, s)))
                 else (m1, st1));
              m3 = (if author m2 = AuthorString [] then m2\<lparr>author := AuthorString (js ''unknown'')\<rparr>
                    else m2);
              m4 = (if summary m3 = [] then m3\<lparr>summary := js ''No summary available''\<rparr> else m3);
              fixed = (created m0 = [] \<or> updated m1 = [] \<or> author m2 = AuthorString []
                       \<or> summary m3 = []);
              st3 = cache_set k m4 st2
          in if fixed
             then (case checker_now env st3 of
                     (t, st4) \<Rightarrow>
                       audit_log env
                         \<lparr>timestamp = t, action = js ''fix_metadata'', actor = js ''system'',
                          details = [(js ''docId'', DetailString k), (js ''fixed'', DetailBool True)],
                          impact = medium\<rparr> st4)
             else (Inr (), st3))"

text \<open>\<open>completeOperation\<close>: both known operations only write to the log.\<close>

definition completeOperation :: "Env \<Rightarrow> jsstring option \<Rightarrow> Checker \<Rightarrow> (error + unit) \<times> Checker" where
  "completeOperation env opn st =
     (case checker_now env st of
        (t, st1) \<Rightarrow>
          audit_log env
            \<lparr>timestamp = t, action = js ''complete_operation'', actor = js ''system'',
             details = (case opn of None \<Rightarrow> [] | Some name \<Rightarrow> [(js ''operation'', DetailString name)]),
             impact = medium\<rparr> st1)"

text \<open>\<open>syncFileToMemory\<close>\<close>

definition syncFileToMemory :: "Env \<Rightarrow> jsstring option \<Rightarrow> Checker \<Rightarrow> (error + unit) \<times> Checker" where
  "syncFileToMemory env i st =
     (case cache_get i st of
        None \<Rightarrow> (Inr (), st)
      | Some (k, m0) \<Rightarrow>
          (case change_log m0 of
             Some entries \<Rightarrow> (Inr (), st)
           | None \<Rightarrow>
               let author1 = (case author m0 of
                                AuthorArray xs \<Rightarrow> (case xs of [] \<Rightarrow> js ''unknown'' | a # rest \<Rightarrow> a)
                              | AuthorString a \<Rightarrow> a);
                   (t, st1) = checker_now env st;
                   m1 = m0\<lparr>change_log := Some [\<lparr>cl_timestamp = t, cl_action = js ''created'',
                                                cl_author = author1,
                                                cl_reason = Some (js ''Initialized during sync''),
                                                cl_details = None\<rparr>]\<rparr>;
                   st2 = cache_set k m1 st1;
                   (t2, st3) = checker_now env st2
               in audit_log env
                    \<lparr>timestamp = t2, action = js ''sync_file_to_memory'', actor = js ''system'',
                     details = [(js ''docId'', DetailString k),
                                (js ''changeLogInitialized'', DetailBool True)],
                     impact = low\<rparr> st3))"

text \<open>
  The \<open>switch\<close> inside the \<open>try\<close> of \<open>recover\<close>: \<open>Inr True\<close> when \<open>recovered++\<close> is
  reached, \<open>Inr False\<close> in the \<open>default\<close> branch, \<open>Inl\<close> when the fix throws.
\<close>

definition recover_issue :: "Env \<Rightarrow> IntegrityIssue \<Rightarrow> Checker \<Rightarrow> (error + bool) \<times> Checker" where
  "recover_issue env issue st =
     (case issue_type issue of
        invalid_metadata \<Rightarrow>
          (case fixMetadata env (docId issue) st of
             (Inl e, st1) \<Rightarrow> (Inl e, st1) | (Inr u, st1) \<Rightarrow> (Inr True, st1))
      | incomplete_operation \<Rightarrow>
          (case completeOperation env (operation issue) st of
             (Inl e, st1) \<Rightarrow> (Inl e, st1) | (Inr u, st1) \<Rightarrow> (Inr True, st1))
      | file_memory_mismatch \<Rightarrow>
          (case syncFileToMemory env (docId issue) st of
             (Inl e, st1) \<Rightarrow> (Inl e, st1) | (Inr u, st1) \<Rightarrow> (Inr True, st1))
      | other_type \<Rightarrow> (Inr False, st))"

text \<open>The loop of \<open>recover\<close>: the \<open>catch\<close> logs the error and goes on with the next issue.\<close>

fun recover_loop :: "Env \<Rightarrow> IntegrityIssue list \<Rightarrow> nat \<Rightarrow> Checker \<Rightarrow> nat \<times> Checker" where
  "recover_loop env [] n st = (n, st)"
| "recover_loop env (issue # issues) n st =
     (case recover_issue env issue st of
        (Inr True, st1) \<Rightarrow> recover_loop env issues (n + 1) st1
      | (Inr False, st1) \<Rightarrow> recover_loop env issues n st1
      | (Inl e, st1) \<Rightarrow> recover_loop env issues n st1)"

text \<open>\<open>recover\<close>: the final audit entry is written outside the \<open>try\<close>.\<close>

definition recover :: "Env \<Rightarrow> IntegrityIssue list \<Rightarrow> Checker \<Rightarrow> (error + RecoveryResult) \<times> Checker" where
  "recover env issues st =
     (case recover_loop env issues 0 st of
        (n, st1) \<Rightarrow>
          let result = \<lparr>total = length issues, recovered = n\<rparr>;
              (t, st2) = checker_now env st1
          in case audit_log env
                    \<lparr>timestamp = t, action = js ''auto_recovery'', actor = js ''system'',
                     details = [(js ''total'', DetailNumber (length issues)),
                                (js ''recovered'', DetailNumber n)],
                     impact = (if n < length issues then high else medium)\<rparr> st2 of
               (Inl e, st3) \<Rightarrow> (Inl e, st3)
             | (Inr u, st3) \<Rightarrow> (Inr result, st3))"

text \<open>What an operation returned, if it did not throw.\<close>

definition returned :: "(error + 'a) \<times> 's \<Rightarrow> 'a option" where
  "returned r = (case fst r of Inl e \<Rightarrow> None | Inr x \<Rightarrow> Some x)"

section \<open>Fixtures\<close>

definition mk_metadata :: "jsstring \<Rightarrow> jsstring list \<Rightarrow> jsstring list \<Rightarrow> jsstring \<Rightarrow> DocumentMetadata" where
  "mk_metadata i fs ts s =
     \<lparr>doc_id = i, created = js ''2025-01-01T00:00:00.000Z'', updated = js ''2025-01-01T00:00:00.000Z'',
      author = AuthorString (js ''dev@example.com''), tags = ts, prompt_hash = js ''sha256:00'',
      related_files = fs, summary = s, ultra_summary = [], standard_summary = [],
      embedding_model = js ''nomic-embed-text'', version = js ''1.0'',
      merged_from = None, merge_method = None, merge_timestamp = None, is_merged = None,
      merge_reviewed = None, merge_reviewer = None, quality_score = None, freshness_score = None,
      completeness_score = None, reference_count = None, change_log = None\<rparr>"

definition mk_doc :: "jsstring \<Rightarrow> jsstring list \<Rightarrow> jsstring list \<Rightarrow> jsstring \<Rightarrow> Document" where
  "mk_doc i fs ts s =
     \<lparr>metadata = mk_metadata i fs ts s, content = [], file_path = InDocsDir (i @ js ''.md''),
      vector = None\<rparr>"

text \<open>
  Four active records whose related files chain them together: \<open>d0\<close> and \<open>d3\<close> share
  \<open>a.ts\<close>, \<open>d3\<close> and \<open>d2\<close> share \<open>b.ts\<close>, \<open>d2\<close> and \<open>d1\<close> share \<open>c.ts\<close>.
\<close>

definition chain_docs :: "Document list" where
  "chain_docs =
     [mk_doc (js ''d0'') [js ''a.ts''] [] [],
      mk_doc (js ''d1'') [js ''c.ts''] [] [],
      mk_doc (js ''d2'') [js ''b.ts'', js ''c.ts''] [] [],
      mk_doc (js ''d3'') [js ''a.ts'', js ''b.ts''] [] []]"

definition chain_store :: Store where
  "chain_store =
     \<lparr>docs_dir = map (\<lambda>d. (basename (file_path d), (metadata d, content d))) chain_docs,
      archive_dir = [], ticks = 0\<rparr>"

text \<open>
  An environment for the examples, whose texts and file names are ASCII: lower-casing as on
  Latin-1, a sorted directory listing, one fixed UUID and time, a summarizer that cuts the
  text, no readable source file, and an audit file that can be written.  No example writes a
  body that begins with a byte-order mark or with \<open>---\<close>, so \<open>matter_reparse\<close> is never
  called.
\<close>

definition env0 :: Env where
  "env0 =
     \<lparr>toLowerCase = latin1_lower,
      git_email = js ''dev@example.com'',
      uuid_at = (\<lambda>k. js ''3f2b8c1e-7a4d-4c1b-9e2f-5d6a7b8c9d0e''),
      time_at = (\<lambda>k. js ''2025-06-01T10:00:00.000Z''),
      summarize_at = (\<lambda>k text maxLength. take maxLength text),
      read_source = (\<lambda>file. None),
      sha256_hex = (\<lambda>prompt. js ''00''),
      listing_position = (\<lambda>name names. length (filter (\<lambda>n. name_less n name) names)),
      matter_reparse = (\<lambda>md body. (md, body)),
      append_ok = (\<lambda>k. True)\<rparr>"

text \<open>Two active records about the same file, with one tag each.\<close>

definition src1 :: Document where
  "src1 = mk_doc (js ''d1'') [js ''src/auth/login.ts''] [js ''security''] (js ''Add login'')"

definition src2 :: Document where
  "src2 = mk_doc (js ''d2'') [js ''src/auth/login.ts'', js ''src/auth/token.ts''] [js ''jwt'']
            (js ''Add token refresh'')"

definition store0 :: Store where
  "store0 =
     \<lparr>docs_dir = [(js ''d1.md'', (metadata src1, [])), (js ''d2.md'', (metadata src2, []))],
      archive_dir = [], ticks = 0\<rparr>"

text \<open>A record with a change log of one entry.\<close>

definition created_entry :: ChangeLogEntry where
  "created_entry =
     \<lparr>cl_timestamp = js ''2025-01-01T00:00:00.000Z'', cl_action = js ''created'',
      cl_author = js ''dev@example.com'', cl_reason = None, cl_details = None\<rparr>"

definition store1 :: Store where
  "store1 =
     \<lparr>docs_dir = [(js ''d1.md'', ((metadata src1)\<lparr>change_log := Some [created_entry]\<rparr>, []))],
      archive_dir = [], ticks = 0\<rparr>"

text \<open>A checker with an empty cache, and an environment whose audit file cannot be written.\<close>

definition checker0 :: Checker where
  "checker0 = \<lparr>documentCache = Map.empty, audit_trail = [], appends = 0, clock_reads = 0\<rparr>"

definition env_no_audit :: Env where
  "env_no_audit = env0\<lparr>append_ok := (\<lambda>k. False)\<rparr>"

text \<open>
  A checker that caches \<open>src1\<close>, two issues about it, and an environment in which only the
  first append to the audit file fails.
\<close>

definition issues0 :: "IntegrityIssue list" where
  "issues0 =
     [\<lparr>issue_type = incomplete_operation, docId = Some (js ''d1''), operation = Some (js ''merge''),
       issue_details = []\<rparr>,
      \<lparr>issue_type = file_memory_mismatch, docId = Some (js ''d1''), operation = None,
       issue_details = []\<rparr>]"

definition env_first_append_fails :: Env where
  "env_first_append_fails = env0\<lparr>append_ok := (\<lambda>k. k \<noteq> 0)\<rparr>"

definition checker1 :: Checker where
  "checker1 = \<lparr>documentCache = [js ''d1'' \<mapsto> metadata src1], audit_trail = [], appends = 0,
                clock_reads = 0\<rparr>"

text \<open>The group of the two records \<open>src1\<close> and \<open>src2\<close>.\<close>

definition g0 :: DocumentGroup where
  "g0 = \<lparr>similarity = 0, documents = [src1, src2], reason = file_overlap\<rparr>"



section \<open>Properties\<close>

lemma set_new_Set [simp]: "set (new_Set xs) = set xs"
  by (simp add: new_Set_def)

lemma distinct_new_Set [simp]: "distinct (new_Set xs)"
  by (simp add: new_Set_def)

lemma length_new_Set: "length (new_Set xs) = card (set xs)"
  using distinct_card [of "new_Set xs"] by simp

lemma new_Set_distinct: "distinct xs \<Longrightarrow> new_Set xs = xs"
  by (simp add: new_Set_def distinct_remdups_id)

subsection \<open>File overlap\<close>

lemma overlap_subset_aux:
  assumes "filesA \<noteq> []" "filesB \<noteq> []" "set filesA \<subseteq> set filesB"
  shows "calculateFileOverlap filesA filesB
       = real (card (set filesA)) / real (max (length filesA) (length filesB))"
proof -
  have "{x \<in> set filesA. x \<in> set filesB} = set filesA"
    using assms(3) by auto
  then show ?thesis
    using assms(1,2) by (simp add: calculateFileOverlap_def Let_def length_new_Set)
qed

lemma server_overlap_eq: "server_calculateFileOverlap a b = calculateFileOverlap a b"
  by (simp add: server_calculateFileOverlap_def calculateFileOverlap_def)

lemma fileOverlap_formula:
  "calculateFileOverlap filesA filesB
     = (if filesA = [] \<or> filesB = [] then 0
        else real (card (set filesA \<inter> set filesB)) / real (max (length filesA) (length filesB)))"
proof -
  have "{x \<in> set filesA. x \<in> set filesB} = set filesA \<inter> set filesB" by auto
  then show ?thesis by (simp add: calculateFileOverlap_def Let_def length_new_Set)
qed

lemma fileOverlap_spec:
  "distinct filesA \<Longrightarrow> distinct filesB \<Longrightarrow>
     calculateFileOverlap filesA filesB = spec_fileOverlap filesA filesB"
  by (simp add: fileOverlap_formula spec_fileOverlap_def distinct_card)

text \<open>
  Claim C9, as amended.  For related-path lists \<open>filesA\<close>, \<open>filesB\<close>, both non-empty, with
  the paths of \<open>filesA\<close> among those of \<open>filesB\<close>, and such that \<open>filesB\<close> has no duplicate
  entry and \<open>filesA\<close> is not longer than \<open>filesB\<close> (so in particular whenever neither list
  has duplicates), both copies of \<open>calculateFileOverlap\<close> return the ratio of the
  cardinalities of the two path sets.  The divisor in the code is the larger list length, not
  a set cardinality.
\<close>

theorem fileOverlap_subset_ratio:
  assumes "filesA \<noteq> []" and "filesB \<noteq> []" and "set filesA \<subseteq> set filesB"
    and "distinct filesB" and "length filesA \<le> length filesB"
  shows "calculateFileOverlap filesA filesB = real (card (set filesA)) / real (card (set filesB))
       \<and> server_calculateFileOverlap filesA filesB = real (card (set filesA)) / real (card (set filesB))"
  using overlap_subset_aux [OF assms(1-3)] assms(4,5)
  by (simp add: server_overlap_eq distinct_card max_def)

theorem fileOverlap_subset_ratio_witness:
  "calculateFileOverlap [js ''a.ts'', js ''b.ts''] [js ''a.ts'', js ''b.ts'', js ''c.ts''] = 2 / 3"
  using fileOverlap_subset_ratio [of "[js ''a.ts'', js ''b.ts'']" "[js ''a.ts'', js ''b.ts'', js ''c.ts'']"]
  by (simp add: js_def)

text \<open>
  The claim as stated fails when a list repeats a path: \<open>["a.ts"]\<close> against
  \<open>["a.ts", "a.ts"]\<close> has overlap \<open>1/2\<close>, while both path sets have one element.
\<close>

theorem fileOverlap_duplicates_counterexample:
  "calculateFileOverlap [js ''a.ts''] [js ''a.ts'', js ''a.ts'']
     \<noteq> real (card (set [js ''a.ts''])) / real (card (set [js ''a.ts'', js ''a.ts'']))"
  by (simp add: calculateFileOverlap_def new_Set_def js_def)

subsection \<open>The merge-candidate predicate\<close>

lemma in_scan_pairs:
  "g \<in> set (scan_pairs search threshold allDocs)
     \<longleftrightarrow> (\<exists>i j. i < j \<and> j < length allDocs
               \<and> g \<in> set (detect_pair search threshold (allDocs ! i) (allDocs ! j)))"
proof
  assume "g \<in> set (scan_pairs search threshold allDocs)"
  then obtain i j where "i < length allDocs" "i + 1 \<le> j" "j < length allDocs"
     "g \<in> set (detect_pair search threshold (allDocs ! i) (allDocs ! j))"
    unfolding scan_pairs_def by auto
  then show "\<exists>i j. i < j \<and> j < length allDocs
               \<and> g \<in> set (detect_pair search threshold (allDocs ! i) (allDocs ! j))"
    by (intro exI [of _ i] exI [of _ j]) simp
next
  assume "\<exists>i j. i < j \<and> j < length allDocs
               \<and> g \<in> set (detect_pair search threshold (allDocs ! i) (allDocs ! j))"
  then obtain i j where ij: "i < j" "j < length allDocs"
     "g \<in> set (detect_pair search threshold (allDocs ! i) (allDocs ! j))" by blast
  have "\<exists>i\<in>{0 ..< length allDocs}. \<exists>j\<in>{Suc i ..< length allDocs}.
           g \<in> set (detect_pair search threshold (allDocs ! i) (allDocs ! j))"
    using ij by (intro bexI [of _ i] bexI [of _ j]) auto
  then show "g \<in> set (scan_pairs search threshold allDocs)"
    by (simp add: scan_pairs_def)
qed

lemma find_first:
  "\<forall>y \<in> set pre. \<not> P y \<Longrightarrow> P x \<Longrightarrow> find P (pre @ x # post) = Some x"
  by (induction pre) auto

lemma vector_similarity_found:
  assumes "search (content docA) 10 = Some (pre @ (doc_id (metadata docB), score) # post)"
    and "doc_id (metadata docB) \<notin> fst ` set pre"
  shows "calculateVectorSimilarity search docA docB = score"
proof -
  have "find (\<lambda>r. fst r = doc_id (metadata docB)) (pre @ (doc_id (metadata docB), score) # post)
          = Some (doc_id (metadata docB), score)"
    using assms(2) by (intro find_first) force+
  with assms(1) show ?thesis by (simp add: calculateVectorSimilarity_def)
qed

lemma vector_similarity_absent:
  assumes "search (content docA) 10 = None
         \<or> (\<exists>results. search (content docA) 10 = Some results
               \<and> doc_id (metadata docB) \<notin> fst ` set results)"
  shows "calculateVectorSimilarity search docA docB = 0"
proof -
  have "find (\<lambda>r. fst r = doc_id (metadata docB)) results = None"
    if "doc_id (metadata docB) \<notin> fst ` set results" for results :: "(jsstring \<times> real) list"
    using that by (force simp: find_None_iff)
  with assms show ?thesis by (auto simp: calculateVectorSimilarity_def)
qed

text \<open>
  Claim C5, as amended.  For records whose related-path lists have no duplicate entry, a
  pair is emitted as a merge candidate exactly when its semantic similarity reaches the
  threshold or the file-overlap ratio of the specification is at least \<open>0.5\<close>.  The semantic
  similarity is the score that the vector index gives to the second record among the first
  ten results of a search for the content of the first, and 0 when the record is not among
  them or the search throws.  The scan emits exactly the candidates of the pairs \<open>i < j\<close>.
  Records with related files \<open>["a.ts", "b.ts"]\<close> and \<open>["a.ts", "b.ts", "c.ts"]\<close> have
  overlap \<open>2/3\<close> and are a candidate whatever the index answers and whatever the threshold.
\<close>

theorem merge_candidate_predicate:
  assumes "distinct (related_files (metadata docA))" and "distinct (related_files (metadata docB))"
  shows
    "(search (content docA) 10 = Some (pre @ (doc_id (metadata docB), score) # post)
        \<and> doc_id (metadata docB) \<notin> fst ` set pre
      \<longrightarrow> (detect_pair search threshold docA docB \<noteq> []
             \<longleftrightarrow> score \<ge> threshold
                  \<or> spec_fileOverlap (related_files (metadata docA)) (related_files (metadata docB)) \<ge> 1 / 2))
     \<and> (search (content docA) 10 = None
          \<or> (\<exists>results. search (content docA) 10 = Some results
                \<and> doc_id (metadata docB) \<notin> fst ` set results)
      \<longrightarrow> (detect_pair search threshold docA docB \<noteq> []
             \<longleftrightarrow> 0 \<ge> threshold
                  \<or> spec_fileOverlap (related_files (metadata docA)) (related_files (metadata docB)) \<ge> 1 / 2))
     \<and> (g \<in> set (scan_pairs search threshold allDocs)
          \<longleftrightarrow> (\<exists>i j. i < j \<and> j < length allDocs
                 \<and> g \<in> set (detect_pair search threshold (allDocs ! i) (allDocs ! j))))
     \<and> (related_files (metadata docA) = [js ''a.ts'', js ''b.ts'']
          \<and> related_files (metadata docB) = [js ''a.ts'', js ''b.ts'', js ''c.ts'']
        \<longrightarrow> spec_fileOverlap (related_files (metadata docA)) (related_files (metadata docB)) = 2 / 3
            \<and> detect_pair search threshold docA docB \<noteq> [])"
proof (intro conjI impI)
  note ov = fileOverlap_spec [OF assms]
  {
    assume "search (content docA) 10 = Some (pre @ (doc_id (metadata docB), score) # post)
        \<and> doc_id (metadata docB) \<notin> fst ` set pre"
    then have "calculateVectorSimilarity search docA docB = score"
      using vector_similarity_found by blast
    then show "detect_pair search threshold docA docB \<noteq> []
             \<longleftrightarrow> score \<ge> threshold
                  \<or> spec_fileOverlap (related_files (metadata docA)) (related_files (metadata docB)) \<ge> 1 / 2"
      by (simp add: detect_pair_def Let_def ov)
  }
  {
    assume "search (content docA) 10 = None
          \<or> (\<exists>results. search (content docA) 10 = Some results
                \<and> doc_id (metadata docB) \<notin> fst ` set results)"
    then have "calculateVectorSimilarity search docA docB = 0"
      by (rule vector_similarity_absent)
    then show "detect_pair search threshold docA docB \<noteq> []
             \<longleftrightarrow> 0 \<ge> threshold
                  \<or> spec_fileOverlap (related_files (metadata docA)) (related_files (metadata docB)) \<ge> 1 / 2"
      by (simp add: detect_pair_def Let_def ov)
  }
  show "g \<in> set (scan_pairs search threshold allDocs)
          \<longleftrightarrow> (\<exists>i j. i < j \<and> j < length allDocs
                 \<and> g \<in> set (detect_pair search threshold (allDocs ! i) (allDocs ! j)))"
    by (rule in_scan_pairs)
  {
    assume h: "related_files (metadata docA) = [js ''a.ts'', js ''b.ts'']
          \<and> related_files (metadata docB) = [js ''a.ts'', js ''b.ts'', js ''c.ts'']"
    then have c: "calculateFileOverlap (related_files (metadata docA)) (related_files (metadata docB)) = 2 / 3"
      by (simp add: calculateFileOverlap_def new_Set_def js_def)
    with ov show "spec_fileOverlap (related_files (metadata docA)) (related_files (metadata docB)) = 2 / 3"
      by simp
    from c show "detect_pair search threshold docA docB \<noteq> []"
      by (simp add: detect_pair_def Let_def)
  }
qed

theorem merge_candidate_predicate_witness:
  "detect_pair (\<lambda>q n. Some [(js ''zz'', 1 / 10), (js ''d2'', 9 / 10)]) (85 / 100)
       (mk_doc (js ''d1'') [js ''x.ts''] [] []) (mk_doc (js ''d2'') [js ''y.ts''] [] []) \<noteq> []
   \<and> detect_pair (\<lambda>q n. Some [(js ''zz'', 1 / 10)]) (85 / 100)
       (mk_doc (js ''d1'') [js ''x.ts''] [] []) (mk_doc (js ''d2'') [js ''y.ts''] [] []) = []
   \<and> spec_fileOverlap [js ''a.ts'', js ''b.ts''] [js ''a.ts'', js ''b.ts'', js ''c.ts''] = 2 / 3
   \<and> detect_pair (\<lambda>q n. None) (85 / 100)
        (mk_doc (js ''d1'') [js ''a.ts'', js ''b.ts''] [] [])
        (mk_doc (js ''d2'') [js ''a.ts'', js ''b.ts'', js ''c.ts''] [] []) \<noteq> []"
  using merge_candidate_predicate [of "mk_doc (js ''d1'') [js ''x.ts''] [] []"
      "mk_doc (js ''d2'') [js ''y.ts''] [] []"
      "\<lambda>q n. Some [(js ''zz'', 1 / 10), (js ''d2'', 9 / 10)]" "[(js ''zz'', 1 / 10)]" "9 / 10" "[]"
      "85 / 100"]
    merge_candidate_predicate [of "mk_doc (js ''d1'') [js ''x.ts''] [] []"
      "mk_doc (js ''d2'') [js ''y.ts''] [] []"
      "\<lambda>q n. Some [(js ''zz'', 1 / 10)]" "[]" 0 "[]" "85 / 100"]
    merge_candidate_predicate [of "mk_doc (js ''d1'') [js ''a.ts'', js ''b.ts''] [] []"
      "mk_doc (js ''d2'') [js ''a.ts'', js ''b.ts'', js ''c.ts''] [] []"
      "\<lambda>q n. None" "[]" 0 "[]" "85 / 100"]
  by (simp add: mk_doc_def mk_metadata_def js_def spec_fileOverlap_def)

text \<open>
  The claim as stated fails when a list repeats a path: for \<open>["a.ts", "a.ts", "a.ts"]\<close>
  and \<open>["a.ts"]\<close> the ratio of the specification is 1, the code computes \<open>1/3\<close>, and with
  a semantic similarity of 0 the pair is not a candidate.
\<close>

theorem merge_candidate_repeated_paths_counterexample:
  "spec_fileOverlap [js ''a.ts'', js ''a.ts'', js ''a.ts''] [js ''a.ts''] = 1
   \<and> calculateVectorSimilarity (\<lambda>q n. None)
        (mk_doc (js ''d1'') [js ''a.ts'', js ''a.ts'', js ''a.ts''] [] [])
        (mk_doc (js ''d2'') [js ''a.ts''] [] []) = 0
   \<and> detect_pair (\<lambda>q n. None) (85 / 100)
        (mk_doc (js ''d1'') [js ''a.ts'', js ''a.ts'', js ''a.ts''] [] [])
        (mk_doc (js ''d2'') [js ''a.ts''] [] []) = []"
  by (simp add: spec_fileOverlap_def detect_pair_def calculateVectorSimilarity_def
      calculateFileOverlap_def new_Set_def mk_doc_def mk_metadata_def js_def Let_def)

subsection \<open>Grouping\<close>

text \<open>
  Claim C2 does not hold of the code.  \<open>mergeGroups\<close> makes one pass: a group absorbed into
  the current one can bring in a document that an earlier, already skipped group also has.
  On \<open>chain_store\<close> the scan emits the pairs (d0, d3), (d1, d2), (d2, d3); the first group
  absorbs the third and the second stays on its own, so \<open>d2\<close> is in both returned groups.
\<close>

theorem detectSimilarDocuments_chain_shares_id:
  "map (\<lambda>d. doc_id (metadata d)) (getAllActiveDocuments env0 (\<lambda>s. 0) chain_store)
     = [js ''d0'', js ''d1'', js ''d2'', js ''d3'']
   \<and> map (\<lambda>g. map (\<lambda>d. doc_id (metadata d)) (documents g))
       (detectSimilarDocuments env0 (\<lambda>q n. None) (\<lambda>s. 0) (85 / 100) chain_store)
     = [[js ''d0'', js ''d3'', js ''d2''], [js ''d1'', js ''d2'']]"
  by (simp add: detectSimilarDocuments_def getAllActiveDocuments_def searchDocuments_def
      search_entry_def hidden_def basename_def chain_store_def
      mergeGroups_def merge_from_def absorb_def add_missing_def
      scan_pairs_def chain_docs_def detect_pair_def calculateVectorSimilarity_def
      calculateFileOverlap_def new_Set_def mk_doc_def mk_metadata_def js_def Let_def upt_rec)

subsection \<open>Similarity at creation time\<close>

lemma tagSimilarity_sets:
  assumes "distinct ta" "distinct tb" "ta \<noteq> [] \<or> tb \<noteq> []"
  shows "tagSimilarity ta tb
       = Some (real (card (set ta \<inter> set tb)) / real (max (card (set ta)) (card (set tb))))"
proof -
  have "length (filter (\<lambda>tag. tag \<in> set tb) ta) = card (set ta \<inter> set tb)"
    using assms(1) by (simp add: distinct_length_filter Int_commute Collect_mem_eq)
  moreover have "length ta = card (set ta)" "length tb = card (set tb)"
    using assms(1,2) by (simp_all add: distinct_card)
  moreover have "max (length ta) (length tb) \<noteq> 0"
    using assms(3) by auto
  ultimately show ?thesis
    by (simp add: tagSimilarity_def Let_def)
qed

lemma keywordSimilarity_sets:
  "calculateKeywordSimilarity env textA textB
     = real (card (set (split_ws (toLowerCase env textA)) \<inter> set (split_ws (toLowerCase env textB))))
       / real (max (card (set (split_ws (toLowerCase env textA))))
                   (card (set (split_ws (toLowerCase env textB)))))"
proof -
  have "{x \<in> set (split_ws (toLowerCase env textA)). x \<in> set (split_ws (toLowerCase env textB))}
      = set (split_ws (toLowerCase env textA)) \<inter> set (split_ws (toLowerCase env textB))"
    by auto
  then show ?thesis
    by (simp add: calculateKeywordSimilarity_def Let_def length_new_Set)
qed

text \<open>
  Claim C1, as amended.  For records with duplicate-free tag lists, not both empty, the
  similarity computed by \<open>findSimilarInMemory\<close> is
  \<open>0.6 * fileOverlap + 0.2 * tagOverlap + 0.2 * keywordOverlap\<close>.  \<open>fileOverlap\<close> is 0 if
  either related-path list is empty, and otherwise the size of the intersection of the two
  path sets over the larger of the two list lengths.  \<open>tagOverlap\<close> and \<open>keywordOverlap\<close>
  divide the size of the intersection by the size of the larger set (not by the size of the
  union), over the tag sets and over the sets of pieces of the lower-cased summaries split at
  white space.  This holds whatever \<open>toLowerCase\<close> does.
\<close>

theorem proactive_similarity_formula:
  assumes "distinct (tags (metadata a))" and "distinct (tags (metadata b))"
    and "tags (metadata a) \<noteq> [] \<or> tags (metadata b) \<noteq> []"
  shows "similarityScore env a b
       = Some (6 / 10 * (if related_files (metadata a) = [] \<or> related_files (metadata b) = [] then 0
                         else real (card (set (related_files (metadata a)) \<inter> set (related_files (metadata b))))
                                / real (max (length (related_files (metadata a)))
                                            (length (related_files (metadata b)))))
             + 2 / 10 * (real (card (set (tags (metadata a)) \<inter> set (tags (metadata b))))
                          / real (max (card (set (tags (metadata a)))) (card (set (tags (metadata b))))))
             + 2 / 10 * (real (card (set (split_ws (toLowerCase env (summary (metadata a))))
                                      \<inter> set (split_ws (toLowerCase env (summary (metadata b))))))
                          / real (max (card (set (split_ws (toLowerCase env (summary (metadata a))))))
                                      (card (set (split_ws (toLowerCase env (summary (metadata b)))))))))"
  using tagSimilarity_sets [OF assms]
  by (simp add: similarityScore_def Let_def keywordSimilarity_sets server_overlap_eq
      fileOverlap_formula)

theorem proactive_similarity_formula_witness:
  "similarityScore env0
       (mk_doc (js ''n'') [js ''a.ts''] [js ''auth'', js ''jwt''] (js ''Add JWT login''))
       (mk_doc (js ''o'') [js ''a.ts'', js ''b.ts''] [js ''auth'', js ''oauth''] (js ''add oauth login''))
     = Some (6 / 10 * (1 / 2) + 2 / 10 * (1 / 2) + 2 / 10 * (2 / 3))"
  using proactive_similarity_formula
          [of "mk_doc (js ''n'') [js ''a.ts''] [js ''auth'', js ''jwt''] (js ''Add JWT login'')"
              "mk_doc (js ''o'') [js ''a.ts'', js ''b.ts''] [js ''auth'', js ''oauth''] (js ''add oauth login'')"
              env0]
  by (simp add: mk_doc_def mk_metadata_def js_def env0_def latin1_lower_def
      split_ws_def lower_unit_def is_ws_def)

text \<open>
  The claim as stated fails on its own example: for the tags \<open>["auth", "jwt"]\<close> and
  \<open>["auth", "oauth"]\<close> the code computes \<open>1/2\<close>, not the Jaccard index \<open>1/3\<close>.
\<close>

theorem tag_similarity_not_jaccard_counterexample:
  "tagSimilarity [js ''auth'', js ''jwt''] [js ''auth'', js ''oauth''] = Some (1 / 2)
   \<and> tagSimilarity [js ''auth'', js ''jwt''] [js ''auth'', js ''oauth''] \<noteq> Some (1 / 3)"
  by (simp add: tagSimilarity_def js_def)

subsection \<open>Quality score\<close>

text \<open>
  Claim C7, as amended.  Freshness is \<open>max(0, 100 - ageInDays)\<close>, completeness adds 40 for
  a summary longer than 10 code units, 30 for a non-empty tag list and 30 for a non-empty
  related-file list, the reference count defaults to 0, and the total is
  \<open>0.4 * freshness + 0.4 * completeness + 0.2 * references\<close>.  A record created 120 days
  ago with no tags, no related files, a summary of at most 10 code units and no reference
  count scores 0, 0 and 0.
\<close>

theorem quality_score_formula:
  "freshness (calculateQualityScore now getTime doc)
     = max 0 (100 - (now - getTime (created (metadata doc))) / 86400000)
   \<and> completeness (calculateQualityScore now getTime doc)
     = (if length (summary (metadata doc)) > 10 then 40 else 0)
       + (if tags (metadata doc) \<noteq> [] then 30 else 0)
       + (if related_files (metadata doc) \<noteq> [] then 30 else 0)
   \<and> references (calculateQualityScore now getTime doc)
     = (case reference_count (metadata doc) of None \<Rightarrow> 0 | Some r \<Rightarrow> r)
   \<and> QualityScores.total (calculateQualityScore now getTime doc)
     = 4 / 10 * freshness (calculateQualityScore now getTime doc)
       + 4 / 10 * completeness (calculateQualityScore now getTime doc)
       + 2 / 10 * references (calculateQualityScore now getTime doc)
   \<and> (now - getTime (created (metadata doc)) = 120 * 86400000
        \<and> tags (metadata doc) = [] \<and> related_files (metadata doc) = []
        \<and> length (summary (metadata doc)) \<le> 10 \<and> reference_count (metadata doc) = None
      \<longrightarrow> freshness (calculateQualityScore now getTime doc) = 0
          \<and> completeness (calculateQualityScore now getTime doc) = 0
          \<and> QualityScores.total (calculateQualityScore now getTime doc) = 0)"
  by (simp add: calculateQualityScore_def Let_def)

theorem quality_score_formula_witness:
  "freshness (calculateQualityScore (120 * 86400000) (\<lambda>s. 0) (mk_doc (js ''d1'') [] [] (js ''fix''))) = 0
   \<and> completeness (calculateQualityScore (120 * 86400000) (\<lambda>s. 0) (mk_doc (js ''d1'') [] [] (js ''fix''))) = 0
   \<and> QualityScores.total (calculateQualityScore (120 * 86400000) (\<lambda>s. 0) (mk_doc (js ''d1'') [] [] (js ''fix''))) = 0"
  using quality_score_formula [of "120 * 86400000" "\<lambda>s. 0" "mk_doc (js ''d1'') [] [] (js ''fix'')"]
  by (simp add: mk_doc_def mk_metadata_def js_def)

text \<open>
  The claim as stated fails for a record created 120 days ago with no tags and no related
  files whose summary is longer than 10 code units: its completeness is 40 and its total 16.
\<close>

theorem quality_score_long_summary_counterexample:
  "tags (metadata (mk_doc (js ''d1'') [] [] (js ''Add login form validation''))) = []
   \<and> related_files (metadata (mk_doc (js ''d1'') [] [] (js ''Add login form validation''))) = []
   \<and> freshness (calculateQualityScore (120 * 86400000) (\<lambda>s. 0)
          (mk_doc (js ''d1'') [] [] (js ''Add login form validation''))) = 0
   \<and> completeness (calculateQualityScore (120 * 86400000) (\<lambda>s. 0)
          (mk_doc (js ''d1'') [] [] (js ''Add login form validation''))) = 40
   \<and> QualityScores.total (calculateQualityScore (120 * 86400000) (\<lambda>s. 0)
          (mk_doc (js ''d1'') [] [] (js ''Add login form validation''))) = 16"
  by (simp add: calculateQualityScore_def Let_def mk_doc_def mk_metadata_def js_def)

subsection \<open>The record store\<close>

lemma find_document_Some:
  "find_document i dir = Some doc \<Longrightarrow>
     doc_id (metadata doc) = i \<and> vector doc = None
     \<and> (\<exists>name. file_path doc = InDocsDir name \<and> \<not> hidden name
            \<and> (name, (metadata doc, content doc)) \<in> set dir)"
  by (induction dir) (auto split: if_splits)

lemma create_entry_present:
  "name \<in> set (map fst dir) \<Longrightarrow>
     create_entry env name f dir = map (\<lambda>e. if fst e = name then (name, f) else e) dir"
  by (simp add: create_entry_def write_entry_def)

text \<open>
  Claim C8, as amended.  \<open>updateDocument\<close> fails with "Document not found" when no active
  file carries the id, and then leaves the store as it was.  Otherwise it returns the record
  with the patch applied and \<open>updated\<close> set to the current time, and rewrites the file of that
  record only, as \<open>matter.stringify\<close> renders the body under the new metadata: every other
  entry of the documents directory and the whole archive are unchanged.  When the body begins
  neither with a byte-order mark nor with the front-matter delimiter \<open>---\<close>, the file holds
  the new metadata and the body, ended by a line feed if it did not end with one.  The update appends nothing to the
  change log, which is the one of the patch if the patch has one and the stored one
  otherwise.
\<close>

theorem update_document_contract:
  "(getDocument i st = None \<longrightarrow> updateDocument env i updates st = (Inl (DocumentNotFound i), st))
   \<and> (getDocument i st = Some doc \<longrightarrow>
        updateDocument env i updates st
          = (Inr (doc\<lparr>metadata := (apply_patch updates (metadata doc))\<lparr>updated := time_at env (ticks st)\<rparr>\<rparr>),
             st\<lparr>ticks := ticks st + 1,
                docs_dir := map (\<lambda>e. if fst e = basename (file_path doc)
                                      then (basename (file_path doc),
                                            matter_file env
                                              ((apply_patch updates (metadata doc))\<lparr>updated := time_at env (ticks st)\<rparr>)
                                              (content doc))
                                      else e) (docs_dir st)\<rparr>)
        \<and> (take 1 (content doc) \<noteq> [65279] \<and> take 3 (content doc) \<noteq> js ''---'' \<longrightarrow>
              matter_file env ((apply_patch updates (metadata doc))\<lparr>updated := time_at env (ticks st)\<rparr>)
                  (content doc)
                = ((apply_patch updates (metadata doc))\<lparr>updated := time_at env (ticks st)\<rparr>,
                   if content doc \<noteq> [] \<and> last (content doc) = 10 then content doc
                   else content doc @ [10]))
        \<and> change_log ((apply_patch updates (metadata doc))\<lparr>updated := time_at env (ticks st)\<rparr>)
            = spread_opt (change_log (metadata doc)) (p_change_log updates))"
proof (intro conjI impI)
  assume "getDocument i st = None"
  then show "updateDocument env i updates st = (Inl (DocumentNotFound i), st)"
    by (simp add: updateDocument_def)
next
  assume g: "getDocument i st = Some doc"
  then obtain name where n: "file_path doc = InDocsDir name" "(name, (metadata doc, content doc)) \<in> set (docs_dir st)"
    using find_document_Some [of i "docs_dir st" doc] by (auto simp: getDocument_def)
  then have "name \<in> set (map fst (docs_dir st))" by force
  then show "updateDocument env i updates st
          = (Inr (doc\<lparr>metadata := (apply_patch updates (metadata doc))\<lparr>updated := time_at env (ticks st)\<rparr>\<rparr>),
             st\<lparr>ticks := ticks st + 1,
                docs_dir := map (\<lambda>e. if fst e = basename (file_path doc)
                                      then (basename (file_path doc),
                                            matter_file env
                                              ((apply_patch updates (metadata doc))\<lparr>updated := time_at env (ticks st)\<rparr>)
                                              (content doc))
                                      else e) (docs_dir st)\<rparr>)"
    using g n(1)
    by (simp add: updateDocument_def now_iso_def tick_def write_file_def basename_def
        create_entry_present Let_def del: set_map)
next
  assume "take 1 (content doc) \<noteq> [65279] \<and> take 3 (content doc) \<noteq> js ''---''"
  then show "matter_file env ((apply_patch updates (metadata doc))\<lparr>updated := time_at env (ticks st)\<rparr>)
                  (content doc)
                = ((apply_patch updates (metadata doc))\<lparr>updated := time_at env (ticks st)\<rparr>,
                   if content doc \<noteq> [] \<and> last (content doc) = 10 then content doc
                   else content doc @ [10])"
    by (simp add: matter_file_def matter_newline_def)
next
  show "change_log ((apply_patch updates (metadata doc))\<lparr>updated := time_at env (ticks st)\<rparr>)
            = spread_opt (change_log (metadata doc)) (p_change_log updates)"
    by (simp add: apply_patch_def)
qed

theorem update_document_contract_witness:
  "returned (updateDocument env0 (js ''d1'') (empty_patch\<lparr>p_summary := Some (js ''Add login form'')\<rparr>) store0)
     = Some (src1\<lparr>metadata := (metadata src1)\<lparr>summary := js ''Add login form'',
                                                updated := js ''2025-06-01T10:00:00.000Z''\<rparr>\<rparr>)
   \<and> map (\<lambda>e. (fst e, snd (snd e)))
       (docs_dir (snd (updateDocument env0 (js ''d1'') (empty_patch\<lparr>p_summary := Some (js ''Add login form'')\<rparr>) store0)))
     = [(js ''d1.md'', [10]), (js ''d2.md'', [])]
   \<and> updateDocument env0 (js ''zz'') empty_patch store0 = (Inl (DocumentNotFound (js ''zz'')), store0)"
  using update_document_contract [of "js ''d1''" store0 env0 "empty_patch\<lparr>p_summary := Some (js ''Add login form'')\<rparr>" src1]
        update_document_contract [of "js ''zz''" store0 env0 empty_patch src1]
  by (simp add: returned_def getDocument_def store0_def src1_def src2_def mk_doc_def mk_metadata_def
      hidden_def js_def env0_def apply_patch_def empty_patch_def spread_def spread_opt_def
      basename_def matter_file_def matter_newline_def)

text \<open>
  The claim as stated fails: updating a record whose change log has one entry, with an empty
  patch, succeeds and returns the record with the same single entry.
\<close>

theorem update_appends_no_history_counterexample:
  "map_option (\<lambda>d. change_log (metadata d)) (returned (updateDocument env0 (js ''d1'') empty_patch store1))
     = Some (Some [created_entry])"
  by (simp add: returned_def updateDocument_def getDocument_def store1_def src1_def mk_doc_def
      mk_metadata_def hidden_def js_def env0_def apply_patch_def empty_patch_def spread_def
      spread_opt_def now_iso_def tick_def write_file_def create_entry_def write_entry_def
      matter_file_def matter_newline_def Let_def)

subsection \<open>Merging\<close>

text \<open>
  Claim C6.  \<open>mergeDocuments\<close> on fewer than two documents throws "At least 2 documents
  are required for merging" before anything else happens: the store it leaves is the store
  it was given, and so does a round of \<open>executeMerge\<close> on such a group, which archives
  nothing.
\<close>

theorem merge_requires_two_documents:
  "length docs < 2 \<Longrightarrow>
     mergeDocuments env docs st = (Inl AtLeastTwoRequired, st)
     \<and> executeMerge_group env \<lparr>similarity = s, documents = docs, reason = r\<rparr> st
         = (Inl AtLeastTwoRequired, st)"
  by (simp add: mergeDocuments_def executeMerge_group_def)

theorem merge_requires_two_documents_witness:
  "mergeDocuments env0 [src1] store0 = (Inl AtLeastTwoRequired, store0)
   \<and> executeMerge_group env0 \<lparr>similarity = 0, documents = [src1], reason = file_overlap\<rparr> store0
       = (Inl AtLeastTwoRequired, store0)"
  using merge_requires_two_documents [of "[src1]" env0 store0 0 file_overlap] by simp

lemma generateContent_head: "take 3 (generateContent env files prompt) = [35, 35, 32]"
  by (simp add: generateContent_def)

lemma head_unit: "take 3 x = [a, b, c] \<Longrightarrow> take 1 x = [a]"
  by (cases x) simp_all

lemma matter_file_generated:
  "matter_file env md (generateContent env files prompt)
     = (md, matter_newline (generateContent env files prompt))"
  using generateContent_head [of env files prompt]
    head_unit [OF generateContent_head [of env files prompt]]
  by (simp add: matter_file_def js_def)

lemma createDocument_effect:
  assumes "createDocument env params st = (doc, st2)"
  shows "\<exists>name. file_path doc = InDocsDir name
           \<and> docs_dir st2 = create_entry env name (metadata doc, matter_newline (content doc)) (docs_dir st)
           \<and> archive_dir st2 = archive_dir st
           \<and> doc_id (metadata doc) = uuid_at env (ticks st)
           \<and> content doc = generateContent env (cp_files params) (cp_prompt params)
           \<and> related_files (metadata doc) = cp_files params
           \<and> tags (metadata doc) = generateTags env (cp_prompt params) (cp_files params)"
  using assms
  by (auto simp: createDocument_def generateMetadata_def uuidv4_def now_iso_def summarize_def
      tick_def write_file_def matter_file_generated Let_def split_def
      split: option.splits if_splits)

lemma updateDocument_effect:
  assumes "updateDocument env i updates st = (Inr d, st')"
  shows "\<exists>doc name. getDocument i st = Some doc \<and> file_path doc = InDocsDir name
           \<and> docs_dir st' = create_entry env name
                 (matter_file env ((apply_patch updates (metadata doc))\<lparr>updated := time_at env (ticks st)\<rparr>)
                    (content doc))
                 (docs_dir st)
           \<and> archive_dir st' = archive_dir st"
proof -
  from assms obtain doc where g: "getDocument i st = Some doc"
    by (auto simp: updateDocument_def split: option.splits)
  then obtain name where n: "file_path doc = InDocsDir name"
    using find_document_Some [of i "docs_dir st" doc] by (auto simp: getDocument_def)
  with assms g show ?thesis
    by (auto simp: updateDocument_def now_iso_def tick_def write_file_def Let_def)
qed

lemma mergeDocuments_Inr:
  assumes "mergeDocuments env docs st = (Inr m, st4)"
  shows "\<exists>merged st2 metadata1 ud.
           createDocument env
              \<lparr>cp_files = new_Set (concat (map (\<lambda>d. related_files (metadata d)) docs)),
               cp_prompt = merge_prefix @ join (js '', '') (map (\<lambda>d. summary (metadata d)) docs),
               cp_summary = Some (merge_prefix @ summary (metadata (hd docs)))\<rparr> (tick st) = (merged, st2)
           \<and> doc_id metadata1 = doc_id (metadata merged)
           \<and> tags metadata1 = tags (metadata merged)
           \<and> related_files metadata1 = related_files (metadata merged)
           \<and> updateDocument env (doc_id metadata1) (patch_of metadata1) (tick st2) = (Inr ud, st4)
           \<and> m = merged\<lparr>metadata := metadata1\<rparr>"
proof -
  from assms have len: "\<not> length docs < 2" by (auto simp: mergeDocuments_def)
  then obtain firstDoc rest where docs: "docs = firstDoc # rest" by (cases docs) auto
  obtain merged st2 where c: "createDocument env
              \<lparr>cp_files = new_Set (concat (map (\<lambda>d. related_files (metadata d)) docs)),
               cp_prompt = merge_prefix @ join (js '', '') (map (\<lambda>d. summary (metadata d)) docs),
               cp_summary = Some (merge_prefix @ summary (metadata (hd docs)))\<rparr> (tick st) = (merged, st2)"
    by (cases "createDocument env
              \<lparr>cp_files = new_Set (concat (map (\<lambda>d. related_files (metadata d)) docs)),
               cp_prompt = merge_prefix @ join (js '', '') (map (\<lambda>d. summary (metadata d)) docs),
               cp_summary = Some (merge_prefix @ summary (metadata (hd docs)))\<rparr> (tick st)")
  define metadata1 where "metadata1 = (metadata merged)
                     \<lparr>author := AuthorArray (new_Set (concat (map (\<lambda>d. author_list (author (metadata d))) docs))),
                      merged_from := Some (map (\<lambda>d. doc_id (metadata d)) docs),
                      merge_method := Some (js ''ai_unified''),
                      merge_timestamp := Some (time_at env (ticks st2)),
                      is_merged := Some True\<rparr>"
  have "(\<exists>ud. updateDocument env (doc_id metadata1) (patch_of metadata1) (tick st2) = (Inr ud, st4))
      \<and> m = merged\<lparr>metadata := metadata1\<rparr>"
    using assms len c unfolding docs metadata1_def
    by (auto simp: mergeDocuments_def createMergedMetadata_def now_iso_def Let_def
        split: sum.splits prod.splits)
  moreover have "doc_id metadata1 = doc_id (metadata merged)" "tags metadata1 = tags (metadata merged)"
      "related_files metadata1 = related_files (metadata merged)"
    by (simp_all add: metadata1_def)
  ultimately show ?thesis using c by blast
qed

lemma mergeDocuments_metadata:
  assumes "mergeDocuments env docs st = (Inr m, st4)"
  shows "related_files (metadata m) = new_Set (concat (map (\<lambda>d. related_files (metadata d)) docs))
       \<and> tags (metadata m)
           = generateTags env (merge_prefix @ join (js '', '') (map (\<lambda>d. summary (metadata d)) docs))
               (new_Set (concat (map (\<lambda>d. related_files (metadata d)) docs)))
       \<and> doc_id (metadata m) = uuid_at env (Suc (ticks st))"
proof -
  from mergeDocuments_Inr [OF assms] obtain merged st2 metadata1 where
    c: "createDocument env
              \<lparr>cp_files = new_Set (concat (map (\<lambda>d. related_files (metadata d)) docs)),
               cp_prompt = merge_prefix @ join (js '', '') (map (\<lambda>d. summary (metadata d)) docs),
               cp_summary = Some (merge_prefix @ summary (metadata (hd docs)))\<rparr> (tick st) = (merged, st2)"
    and m1: "doc_id metadata1 = doc_id (metadata merged)" "tags metadata1 = tags (metadata merged)"
         "related_files metadata1 = related_files (metadata merged)"
    and m: "m = merged\<lparr>metadata := metadata1\<rparr>"
    by blast
  from createDocument_effect [OF c] m1 m show ?thesis by (auto simp: tick_def)
qed

text \<open>
  Claim C3 does not hold of the code.  The related files of the merged record are the union
  of those of the sources, but its tags are the ones \<open>createDocument\<close> generates from the
  merge prompt and the file paths: the tag union that \<open>createMergedMetadata\<close> computes is
  never used.  Merging \<open>src1\<close> (tag "security") and \<open>src2\<close> (tag "jwt") gives a record
  with neither tag.
\<close>

theorem merge_drops_source_tags:
  "tags (metadata src1) = [js ''security''] \<and> tags (metadata src2) = [js ''jwt'']
   \<and> map_option (\<lambda>d. tags (metadata d)) (returned (mergeDocuments env0 [src1, src2] store0))
     = Some [js ''add'', [32113, 21512, 58], js ''login,'', js ''token'', js ''refresh'', js ''auth'', js ''login'']
   \<and> map_option (\<lambda>d. related_files (metadata d)) (returned (mergeDocuments env0 [src1, src2] store0))
     = Some [js ''src/auth/login.ts'', js ''src/auth/token.ts'']"
  by (simp add: returned_def mergeDocuments_def createMergedMetadata_def createDocument_def
      generateMetadata_def generateContent_def generateFileName_def generatePromptHash_def
      updateDocument_def getDocument_def patch_of_def apply_patch_def spread_def spread_opt_def
      write_file_def create_entry_def write_entry_def matter_file_def matter_newline_def uuidv4_def
      now_iso_def
      summarize_def tick_def hidden_def
      first_piece_def file_preview_def author_list_def is_slug_unit_def
      env0_def store0_def src1_def src2_def mk_doc_def mk_metadata_def
      generateTags_def extractKeywords_def file_tags_def merge_prefix_def js_def
      split_ws_def split_on_def latin1_lower_def lower_unit_def is_ws_def stopWords_def count_word_def
      new_Set_def Let_def)

subsection \<open>Archiving the sources of a merge\<close>

lemma set_take_drop: "set (take k xs) \<union> set (drop k xs) = set xs"
  by (metis append_take_drop_id set_append)

lemma in_write_entry: "(name, f) \<in> set (write_entry k name f dir)"
proof (cases "name \<in> set (map fst dir)")
  case True
  then obtain e where "e \<in> set dir" "fst e = name" by auto
  have "(\<lambda>e. if fst e = name then (name, f) else e) e
          \<in> (\<lambda>e. if fst e = name then (name, f) else e) ` set dir"
    using \<open>e \<in> set dir\<close> by (rule imageI)
  then show ?thesis using True \<open>fst e = name\<close> by (simp add: write_entry_def)
next
  case False
  then show ?thesis by (simp add: write_entry_def)
qed

lemma write_entry_others:
  assumes "e \<in> set dir" and "fst e \<noteq> name"
  shows "e \<in> set (write_entry k name f dir)"
proof (cases "name \<in> set (map fst dir)")
  case True
  have "(\<lambda>e. if fst e = name then (name, f) else e) e
          \<in> (\<lambda>e. if fst e = name then (name, f) else e) ` set dir"
    using assms(1) by (rule imageI)
  then show ?thesis using True assms(2) by (simp add: write_entry_def)
next
  case False
  from assms(1) have "e \<in> set (take k dir) \<union> set (drop k dir)" by (simp only: set_take_drop)
  with False show ?thesis by (auto simp: write_entry_def)
qed

lemma in_create_entry: "(name, f) \<in> set (create_entry env name f dir)"
  unfolding create_entry_def by (rule in_write_entry)

lemma create_entry_others:
  "e \<in> set dir \<Longrightarrow> fst e \<noteq> name \<Longrightarrow> e \<in> set (create_entry env name f dir)"
  unfolding create_entry_def by (rule write_entry_others)

lemma archiveDocument_Inr:
  assumes "archiveDocument env i st = (Inr u, st1)"
  shows "\<exists>name f. doc_id (fst f) = i \<and> (name, f) \<in> set (archive_dir st1)
           \<and> name \<in> fst ` set (docs_dir st)
           \<and> name \<notin> fst ` set (docs_dir st1)
           \<and> docs_dir st1 = remove_entry name (docs_dir st)
           \<and> archive_dir st1 = create_entry env name f (archive_dir st)
           \<and> ticks st1 = ticks st"
proof -
  from assms obtain doc where g: "getDocument i st = Some doc"
    by (auto simp: archiveDocument_def split: option.splits)
  then obtain name where n: "file_path doc = InDocsDir name" "doc_id (metadata doc) = i"
      "(name, (metadata doc, content doc)) \<in> set (docs_dir st)"
    using find_document_Some [of i "docs_dir st" doc] by (auto simp: getDocument_def)
  from assms g n have st1: "st1 = st\<lparr>docs_dir := remove_entry name (docs_dir st),
       archive_dir := create_entry env name (metadata doc, content doc) (archive_dir st)\<rparr>"
    by (simp add: archiveDocument_def basename_def Let_def)
  have "name \<in> fst ` set (docs_dir st)" using n(3) by force
  then show ?thesis
    apply (intro exI [of _ name] exI [of _ "(metadata doc, content doc)"])
    using n(2) st1 by (auto simp: in_create_entry remove_entry_def)
qed

lemma archive_sources_Inr:
  "archive_sources env docs st = (Inr u, st') \<Longrightarrow>
     fst ` set (docs_dir st') \<subseteq> fst ` set (docs_dir st)
     \<and> (\<forall>e \<in> set (archive_dir st). fst e \<notin> fst ` set (docs_dir st) \<longrightarrow> e \<in> set (archive_dir st'))
     \<and> (\<forall>d \<in> set docs. \<exists>name f. doc_id (fst f) = doc_id (metadata d)
            \<and> (name, f) \<in> set (archive_dir st') \<and> name \<notin> fst ` set (docs_dir st'))"
proof (induction docs arbitrary: st)
  case Nil
  then show ?case by simp
next
  case (Cons d docs)
  from Cons.prems obtain st1 where a: "archiveDocument env (doc_id (metadata d)) st = (Inr (), st1)"
    and r: "archive_sources env docs st1 = (Inr u, st')"
    by (auto split: prod.splits sum.splits)
  from archiveDocument_Inr [OF a] obtain name f where
    nf: "doc_id (fst f) = doc_id (metadata d)" "(name, f) \<in> set (archive_dir st1)"
        "name \<in> fst ` set (docs_dir st)" "name \<notin> fst ` set (docs_dir st1)"
        "docs_dir st1 = remove_entry name (docs_dir st)"
        "archive_dir st1 = create_entry env name f (archive_dir st)"
    by blast
  have sub: "fst ` set (docs_dir st1) \<subseteq> fst ` set (docs_dir st)"
    using nf(5) by (auto simp: remove_entry_def)
  note ih = Cons.IH [OF r]
  note ih1 = ih [THEN conjunct1]
  note ih2 = ih [THEN conjunct2, THEN conjunct1]
  note ih3 = ih [THEN conjunct2, THEN conjunct2]
  have A: "fst ` set (docs_dir st') \<subseteq> fst ` set (docs_dir st)"
    using ih1 sub by (rule subset_trans)
  have B: "\<forall>e \<in> set (archive_dir st). fst e \<notin> fst ` set (docs_dir st) \<longrightarrow> e \<in> set (archive_dir st')"
  proof (intro ballI impI)
    fix e assume e: "e \<in> set (archive_dir st)" "fst e \<notin> fst ` set (docs_dir st)"
    then have "fst e \<noteq> name" using nf(3) by auto
    with e(1) have "e \<in> set (archive_dir st1)" by (simp add: nf(6) create_entry_others)
    moreover have "fst e \<notin> fst ` set (docs_dir st1)" using e(2) sub by auto
    ultimately show "e \<in> set (archive_dir st')" using ih2 by blast
  qed
  have hd1: "(name, f) \<in> set (archive_dir st')"
    using ih2 nf(2,4) by force
  have hd2: "name \<notin> fst ` set (docs_dir st')"
    using ih1 nf(4) by blast
  have C: "\<forall>x \<in> set (d # docs). \<exists>name f. doc_id (fst f) = doc_id (metadata x)
            \<and> (name, f) \<in> set (archive_dir st') \<and> name \<notin> fst ` set (docs_dir st')"
  proof
    fix x assume "x \<in> set (d # docs)"
    then consider "x = d" | "x \<in> set docs" by auto
    then show "\<exists>name f. doc_id (fst f) = doc_id (metadata x)
            \<and> (name, f) \<in> set (archive_dir st') \<and> name \<notin> fst ` set (docs_dir st')"
    proof cases
      case 1
      then show ?thesis using nf(1) hd1 hd2 by blast
    next
      case 2
      then show ?thesis using ih3 by blast
    qed
  qed
  from A B C show ?case by (intro conjI)
qed

lemma find_document_None_iff:
  "find_document i dir = None \<longleftrightarrow> i \<notin> set (active_ids dir)"
  by (induction dir) (auto simp: active_ids_def)

lemma active_ids_remove:
  "active_ids (remove_entry name dir)
     = map (\<lambda>e. doc_id (fst (snd e))) (filter (\<lambda>e. fst e \<noteq> name) (filter (\<lambda>e. \<not> hidden (fst e)) dir))"
  by (simp add: active_ids_def remove_entry_def conj_commute)

lemma active_ids_remove_subset:
  "set (active_ids (remove_entry name dir)) \<subseteq> set (active_ids dir)"
  by (auto simp: active_ids_def remove_entry_def)

lemma active_ids_remove_distinct:
  "distinct (active_ids dir) \<Longrightarrow> distinct (active_ids (remove_entry name dir))"
  unfolding active_ids_remove unfolding active_ids_def by (rule distinct_map_filter)

lemma active_ids_remove_gone:
  assumes "distinct (active_ids dir)" "(name, f) \<in> set dir" "\<not> hidden name"
  shows "doc_id (fst f) \<notin> set (active_ids (remove_entry name dir))"
proof
  assume "doc_id (fst f) \<in> set (active_ids (remove_entry name dir))"
  then obtain e where e: "e \<in> set dir" "\<not> hidden (fst e)" "fst e \<noteq> name"
      "doc_id (fst (snd e)) = doc_id (fst f)"
    unfolding active_ids_remove by auto
  from assms(1) have inj: "inj_on (\<lambda>e. doc_id (fst (snd e))) (set (filter (\<lambda>e. \<not> hidden (fst e)) dir))"
    unfolding active_ids_def by (simp add: distinct_map)
  have A: "e \<in> set (filter (\<lambda>e. \<not> hidden (fst e)) dir)" using e by simp
  have B: "(name, f) \<in> set (filter (\<lambda>e. \<not> hidden (fst e)) dir)" using assms(2,3) by simp
  have C: "doc_id (fst (snd e)) = doc_id (fst (snd (name, f)))" using e(4) by simp
  have "e = (name, f)" by (rule inj_onD [OF inj C A B])
  with e(3) show False by simp
qed

lemma archiveDocument_active_ids:
  assumes "archiveDocument env i st = (Inr u, st1)" and "distinct (active_ids (docs_dir st))"
  shows "distinct (active_ids (docs_dir st1))
       \<and> set (active_ids (docs_dir st1)) \<subseteq> set (active_ids (docs_dir st))
       \<and> i \<notin> set (active_ids (docs_dir st1))"
proof -
  from assms(1) obtain doc where g: "getDocument i st = Some doc"
    by (auto simp: archiveDocument_def split: option.splits)
  then obtain name where n: "file_path doc = InDocsDir name" "doc_id (metadata doc) = i"
      "(name, (metadata doc, content doc)) \<in> set (docs_dir st)" "\<not> hidden name"
    using find_document_Some [of i "docs_dir st" doc] by (auto simp: getDocument_def)
  from assms(1) g n have st1: "docs_dir st1 = remove_entry name (docs_dir st)"
    by (auto simp: archiveDocument_def basename_def Let_def)
  show ?thesis
    using active_ids_remove_distinct [OF assms(2), of name] active_ids_remove_subset [of name "docs_dir st"]
      active_ids_remove_gone [OF assms(2) n(3) n(4)] n(2)
    by (simp add: st1)
qed

lemma archive_sources_active_ids:
  "archive_sources env docs st = (Inr u, st') \<Longrightarrow> distinct (active_ids (docs_dir st)) \<Longrightarrow>
     distinct (active_ids (docs_dir st'))
     \<and> set (active_ids (docs_dir st')) \<subseteq> set (active_ids (docs_dir st))
     \<and> (\<forall>d \<in> set docs. doc_id (metadata d) \<notin> set (active_ids (docs_dir st')))"
proof (induction docs arbitrary: st)
  case Nil
  then show ?case by simp
next
  case (Cons d docs)
  from Cons.prems(1) obtain st1 where a: "archiveDocument env (doc_id (metadata d)) st = (Inr (), st1)"
    and r: "archive_sources env docs st1 = (Inr u, st')"
    by (auto split: prod.splits sum.splits)
  note s1 = archiveDocument_active_ids [OF a Cons.prems(2)]
  note ih = Cons.IH [OF r s1 [THEN conjunct1]]
  have "doc_id (metadata d) \<notin> set (active_ids (docs_dir st'))"
    using s1 ih by blast
  moreover have "set (active_ids (docs_dir st')) \<subseteq> set (active_ids (docs_dir st))"
    using s1 ih by blast
  ultimately show ?case using ih by simp
qed

lemma active_ids_append: "active_ids (xs @ ys) = active_ids xs @ active_ids ys"
  by (simp add: active_ids_def)

lemma write_entry_names:
  assumes "distinct (map fst dir)"
  shows "distinct (map fst (write_entry k name f dir))"
proof (cases "name \<in> set (map fst dir)")
  case True
  have "map fst (map (\<lambda>e. if fst e = name then (name, f) else e) dir) = map fst dir"
    by (induction dir) auto
  with assms True show ?thesis unfolding write_entry_def by (simp only: if_True)
next
  case False
  have eq: "map fst (take k dir) @ map fst (drop k dir) = map fst dir"
    by (simp flip: map_append)
  have "distinct (map fst (take k dir) @ map fst (drop k dir))"
    unfolding eq by (rule assms)
  then have d: "distinct (map fst (take k dir))" "distinct (map fst (drop k dir))"
      "set (map fst (take k dir)) \<inter> set (map fst (drop k dir)) = {}"
    by auto
  have n: "name \<notin> set (map fst (take k dir))" "name \<notin> set (map fst (drop k dir))"
    using False by (auto dest: in_set_takeD in_set_dropD)
  from d n False show ?thesis by (simp add: write_entry_def)
qed

lemma replace_fresh_id:
  "distinct (map fst dir) \<Longrightarrow> distinct (active_ids dir) \<Longrightarrow> doc_id (fst f) \<notin> set (active_ids dir) \<Longrightarrow>
     distinct (active_ids (map (\<lambda>e. if fst e = name then (name, f) else e) dir))
     \<and> set (active_ids (map (\<lambda>e. if fst e = name then (name, f) else e) dir))
         \<subseteq> insert (doc_id (fst f)) (set (active_ids dir))"
proof (induction dir)
  case Nil
  then show ?case by (simp add: active_ids_def)
next
  case (Cons e dir)
  from Cons.prems have p: "distinct (map fst dir)" "distinct (active_ids dir)"
      "doc_id (fst f) \<notin> set (active_ids dir)"
    by (auto simp: active_ids_def split: if_splits)
  note ih = Cons.IH [OF p]
  show ?case
  proof (cases "fst e = name")
    case True
    with Cons.prems(1) have "name \<notin> fst ` set dir" by auto
    then have "map (\<lambda>e. if fst e = name then (name, f) else e) dir = dir"
      by (intro map_idI) auto
    with True p show ?thesis by (auto simp: active_ids_def)
  next
    case False
    with Cons.prems ih show ?thesis by (auto simp: active_ids_def split: if_splits)
  qed
qed

lemma write_entry_fresh_id:
  assumes "distinct (map fst dir)" "distinct (active_ids dir)" "doc_id (fst f) \<notin> set (active_ids dir)"
  shows "distinct (active_ids (write_entry k name f dir))"
proof (cases "name \<in> set (map fst dir)")
  case True
  with replace_fresh_id [OF assms, of name] show ?thesis by (simp add: write_entry_def del: set_map)
next
  case False
  have split: "active_ids dir = active_ids (take k dir) @ active_ids (drop k dir)"
    by (simp add: active_ids_append [symmetric])
  have "active_ids (take k dir @ [(name, f)] @ drop k dir)
          = active_ids (take k dir) @ active_ids [(name, f)] @ active_ids (drop k dir)"
    by (simp only: active_ids_append)
  moreover have "set (active_ids [(name, f)]) \<subseteq> {doc_id (fst f)}" "distinct (active_ids [(name, f)])"
    by (simp_all add: active_ids_def)
  ultimately show ?thesis
    using False assms(2,3) unfolding split by (auto simp: write_entry_def)
qed

lemma replace_same_id:
  "\<forall>e \<in> set dir. fst e = name \<longrightarrow> doc_id (fst (snd e)) = doc_id (fst f) \<Longrightarrow>
     active_ids (map (\<lambda>e. if fst e = name then (name, f) else e) dir) = active_ids dir"
  by (induction dir) (auto simp: active_ids_def)

lemma write_entry_same_id:
  assumes "distinct (map fst dir)" "(name, g) \<in> set dir" "doc_id (fst g) = doc_id (fst f)"
  shows "active_ids (write_entry k name f dir) = active_ids dir"
proof -
  have in_names: "name \<in> set (map fst dir)" using assms(2) by force
  have "\<forall>e \<in> set dir. fst e = name \<longrightarrow> doc_id (fst (snd e)) = doc_id (fst f)"
  proof (intro ballI impI)
    fix e assume "e \<in> set dir" "fst e = name"
    then have "(name, snd e) \<in> set dir" by (metis prod.collapse)
    with assms(1,2) have "snd e = g" by (rule_tac eq_key_imp_eq_value)
    with assms(3) show "doc_id (fst (snd e)) = doc_id (fst f)" by simp
  qed
  from replace_same_id [OF this] in_names show ?thesis
    unfolding write_entry_def by (simp only: if_True)
qed

lemma write_entry_cases:
  "e \<in> set (write_entry k name f dir) \<Longrightarrow> e = (name, f) \<or> e \<in> set dir"
  by (auto simp: write_entry_def split: if_splits dest: in_set_takeD in_set_dropD)

lemma matter_newline_head:
  assumes "take 3 x = [a, b, c]"
  shows "take 3 (matter_newline x) = [a, b, c]"
proof -
  from assms have "length (take 3 x) = 3" by simp
  then have "3 \<le> length x" by simp
  with assms show ?thesis by (simp add: matter_newline_def)
qed

lemma mergeDocuments_active_ids:
  assumes "mergeDocuments env docs st = (Inr m, st4)"
    and "distinct (map fst (docs_dir st))" and "distinct (active_ids (docs_dir st))"
    and "uuid_at env (Suc (ticks st)) \<notin> set (active_ids (docs_dir st))"
  shows "distinct (active_ids (docs_dir st4))"
proof -
  from mergeDocuments_Inr [OF assms(1)] obtain merged st2 metadata1 ud where
    c: "createDocument env
              \<lparr>cp_files = new_Set (concat (map (\<lambda>d. related_files (metadata d)) docs)),
               cp_prompt = merge_prefix @ join (js '', '') (map (\<lambda>d. summary (metadata d)) docs),
               cp_summary = Some (merge_prefix @ summary (metadata (hd docs)))\<rparr> (tick st) = (merged, st2)"
    and m1: "doc_id metadata1 = doc_id (metadata merged)"
    and u: "updateDocument env (doc_id metadata1) (patch_of metadata1) (tick st2) = (Inr ud, st4)"
    by blast
  from createDocument_effect [OF c] obtain name where
    cn: "docs_dir st2 = create_entry env name (metadata merged, matter_newline (content merged))
                           (docs_dir (tick st))"
        "doc_id (metadata merged) = uuid_at env (ticks (tick st))"
        "take 3 (content merged) = [35, 35, 32]"
    by (auto simp: generateContent_head)
  have dt: "docs_dir (tick st) = docs_dir st" "ticks (tick st) = Suc (ticks st)"
    by (simp_all add: tick_def)
  have names2: "distinct (map fst (docs_dir st2))"
    using assms(2) by (simp add: cn(1) dt create_entry_def write_entry_names)
  have ids2: "distinct (active_ids (docs_dir st2))"
    unfolding cn(1) dt create_entry_def using assms(2,3,4) cn(2) dt(2)
    by (intro write_entry_fresh_id) simp_all
  from updateDocument_effect [OF u] obtain doc name0 where
    g: "getDocument (doc_id metadata1) (tick st2) = Some doc" "file_path doc = InDocsDir name0"
    and w: "docs_dir st4 = create_entry env name0
                 (matter_file env
                    ((apply_patch (patch_of metadata1) (metadata doc))\<lparr>updated := time_at env (ticks (tick st2))\<rparr>)
                    (content doc))
                 (docs_dir (tick st2))"
    by blast
  have dt2: "docs_dir (tick st2) = docs_dir st2" by (simp add: tick_def)
  from g have e0: "(name0, (metadata doc, content doc)) \<in> set (docs_dir st2)"
      "doc_id (metadata doc) = doc_id metadata1" "\<not> hidden name0"
    using find_document_Some [of "doc_id metadata1" "docs_dir st2" doc]
    by (auto simp: getDocument_def dt2)
  have created: "(name0, (metadata doc, content doc))
                   = (name, (metadata merged, matter_newline (content merged)))"
  proof (rule ccontr)
    assume "(name0, (metadata doc, content doc))
              \<noteq> (name, (metadata merged, matter_newline (content merged)))"
    with e0(1) have old: "(name0, (metadata doc, content doc)) \<in> set (docs_dir st)"
      unfolding cn(1) dt create_entry_def by (blast dest: write_entry_cases)
    have "doc_id (metadata doc) \<in> set (active_ids (docs_dir st))"
      unfolding active_ids_def using old e0(3) by force
    with assms(4) e0(2) m1 cn(2) dt(2) show False by simp
  qed
  then have "take 3 (content doc) = [35, 35, 32]"
    using matter_newline_head [OF cn(3)] by simp
  from this head_unit [OF this] have mf: "matter_file env
                    ((apply_patch (patch_of metadata1) (metadata doc))\<lparr>updated := time_at env (ticks (tick st2))\<rparr>)
                    (content doc)
      = ((apply_patch (patch_of metadata1) (metadata doc))\<lparr>updated := time_at env (ticks (tick st2))\<rparr>,
         matter_newline (content doc))"
    by (simp add: matter_file_def js_def)
  have same: "doc_id (fst (metadata doc, content doc))
      = doc_id (fst ((apply_patch (patch_of metadata1) (metadata doc))\<lparr>updated := time_at env (ticks (tick st2))\<rparr>,
                     matter_newline (content doc)))"
    using e0(2) by (simp add: apply_patch_def patch_of_def spread_def)
  show ?thesis
    unfolding w mf dt2 create_entry_def using write_entry_same_id [OF names2 e0(1) same] ids2 by simp
qed

text \<open>The merge of \<open>src1\<close> and \<open>src2\<close> in \<open>store0\<close>, run to the end.\<close>

lemma executeMerge_group_example:
  "returned (executeMerge_group env0 g0 store0) \<noteq> None
   \<and> getDocument (js ''d1'') (snd (executeMerge_group env0 g0 store0)) = None
   \<and> getDocument (js ''d2'') (snd (executeMerge_group env0 g0 store0)) = None
   \<and> map fst (archive_dir (snd (executeMerge_group env0 g0 store0))) = [js ''d1.md'', js ''d2.md'']"
  by (simp add: g0_def executeMerge_group_def archiveDocument_def remove_entry_def basename_def
      returned_def mergeDocuments_def createMergedMetadata_def createDocument_def
      generateMetadata_def generateContent_def generateFileName_def generatePromptHash_def
      updateDocument_def getDocument_def patch_of_def apply_patch_def spread_def spread_opt_def
      write_file_def create_entry_def write_entry_def matter_file_def matter_newline_def uuidv4_def
      now_iso_def
      summarize_def tick_def hidden_def
      first_piece_def file_preview_def author_list_def is_slug_unit_def
      env0_def store0_def src1_def src2_def mk_doc_def mk_metadata_def
      generateTags_def extractKeywords_def file_tags_def merge_prefix_def js_def
      split_ws_def split_on_def latin1_lower_def lower_unit_def is_ws_def stopWords_def count_word_def
      new_Set_def Let_def)

text \<open>
  Claim C4, as amended.  After a successful merge of a group, every source record has been
  moved, not deleted: the archive directory holds a file with its id, under a name that is
  no longer in the documents directory.  \<open>getDocument\<close> reads the documents directory only
  and skips the hidden archive, so it does not return the archived record: when the file
  names and the ids of the active files were distinct before the merge and the id generated
  for the merged record was not in use, \<open>getDocument\<close> returns nothing for every source id.
\<close>

theorem merged_sources_are_archived_not_retrievable:
  assumes "executeMerge_group env grp st = (Inr merged, st')"
  shows "(\<forall>d \<in> set (documents grp). \<exists>name f. doc_id (fst f) = doc_id (metadata d)
            \<and> (name, f) \<in> set (archive_dir st') \<and> name \<notin> fst ` set (docs_dir st'))
       \<and> (distinct (map fst (docs_dir st)) \<and> distinct (active_ids (docs_dir st))
            \<and> uuid_at env (Suc (ticks st)) \<notin> set (active_ids (docs_dir st))
          \<longrightarrow> (\<forall>d \<in> set (documents grp). getDocument (doc_id (metadata d)) st' = None))"
proof (intro conjI impI)
  from assms obtain st1 u where m: "mergeDocuments env (documents grp) st = (Inr merged, st1)"
    and a: "archive_sources env (documents grp) st1 = (Inr u, st')"
    by (auto simp: executeMerge_group_def split: prod.splits sum.splits)
  from archive_sources_Inr [OF a]
  show "\<forall>d \<in> set (documents grp). \<exists>name f. doc_id (fst f) = doc_id (metadata d)
            \<and> (name, f) \<in> set (archive_dir st') \<and> name \<notin> fst ` set (docs_dir st')"
    by (elim conjE)
  assume h: "distinct (map fst (docs_dir st)) \<and> distinct (active_ids (docs_dir st))
            \<and> uuid_at env (Suc (ticks st)) \<notin> set (active_ids (docs_dir st))"
  then have "distinct (active_ids (docs_dir st1))"
    using mergeDocuments_active_ids [OF m] by blast
  from archive_sources_active_ids [OF a this]
  show "\<forall>d \<in> set (documents grp). getDocument (doc_id (metadata d)) st' = None"
    by (simp add: getDocument_def find_document_None_iff)
qed

theorem merged_sources_are_archived_not_retrievable_witness:
  "getDocument (js ''d1'') (snd (executeMerge_group env0 g0 store0)) = None
   \<and> getDocument (js ''d2'') (snd (executeMerge_group env0 g0 store0)) = None"
proof -
  from executeMerge_group_example obtain merged
    where "fst (executeMerge_group env0 g0 store0) = Inr merged"
    by (auto simp: returned_def split: sum.splits)
  then have eq: "executeMerge_group env0 g0 store0 = (Inr merged, snd (executeMerge_group env0 g0 store0))"
    by (simp add: prod_eq_iff)
  have h: "distinct (map fst (docs_dir store0)) \<and> distinct (active_ids (docs_dir store0))
            \<and> uuid_at env0 (Suc (ticks store0)) \<notin> set (active_ids (docs_dir store0))"
    by (simp add: store0_def env0_def active_ids_def hidden_def src1_def src2_def mk_doc_def
        mk_metadata_def js_def)
  from merged_sources_are_archived_not_retrievable [OF eq] h
  show ?thesis by (simp add: g0_def src1_def src2_def mk_doc_def mk_metadata_def)
qed

text \<open>
  The claim as stated fails: after the successful merge of \<open>src1\<close> and \<open>src2\<close> both files
  are in the archive, and \<open>getDocument\<close> no longer finds \<open>d1\<close>.
\<close>

theorem archived_sources_not_retrievable_counterexample:
  "returned (executeMerge_group env0 g0 store0) \<noteq> None
   \<and> map fst (archive_dir (snd (executeMerge_group env0 g0 store0))) = [js ''d1.md'', js ''d2.md'']
   \<and> getDocument (js ''d1'') (snd (executeMerge_group env0 g0 store0)) = None"
  using executeMerge_group_example by simp

subsection \<open>Integrity recovery\<close>

lemma recover_loop_bound:
  "fst (recover_loop env issues n st) \<le> n + length issues"
proof (induction issues arbitrary: n st)
  case Nil
  then show ?case by simp
next
  case (Cons issue issues)
  obtain r st1 where r: "recover_issue env issue st = (r, st1)" by (cases "recover_issue env issue st")
  show ?case
  proof (cases r)
    case (Inl e)
    with r Cons.IH [of n st1] show ?thesis by simp
  next
    case (Inr b)
    with r Cons.IH [of n st1] Cons.IH [of "n + 1" st1] show ?thesis by (cases b) simp_all
  qed
qed

text \<open>
  Claim C10, as amended.  \<open>recover\<close> goes through every issue: a fix that throws is caught,
  the issue is not counted as recovered, and the loop goes on with the next issue; the
  number of recovered issues is at most the number of issues.  The final audit entry is
  written outside the \<open>try\<close>: when that write succeeds \<open>recover\<close> returns the total (the
  length of the list) and the recovered count; when it fails the error reaches the caller.
\<close>

theorem recover_result:
  "fst (recover_loop env issues 0 st) \<le> length issues
   \<and> (fst (recover_issue env issue st) = Inl e
        \<longrightarrow> recover_loop env (issue # issues) n st
              = recover_loop env issues n (snd (recover_issue env issue st)))
   \<and> (append_ok env (appends (snd (recover_loop env issues 0 st)))
        \<longrightarrow> returned (recover env issues st)
              = Some \<lparr>total = length issues, recovered = fst (recover_loop env issues 0 st)\<rparr>)
   \<and> (\<not> append_ok env (appends (snd (recover_loop env issues 0 st)))
        \<longrightarrow> fst (recover env issues st) = Inl AppendFailed)"
proof (intro conjI impI)
  show "fst (recover_loop env issues 0 st) \<le> length issues"
    using recover_loop_bound [of env issues 0 st] by simp
next
  assume "fst (recover_issue env issue st) = Inl e"
  then show "recover_loop env (issue # issues) n st
              = recover_loop env issues n (snd (recover_issue env issue st))"
    by (cases "recover_issue env issue st") simp
next
  assume "append_ok env (appends (snd (recover_loop env issues 0 st)))"
  then show "returned (recover env issues st)
              = Some \<lparr>total = length issues, recovered = fst (recover_loop env issues 0 st)\<rparr>"
    by (simp add: recover_def returned_def audit_log_def checker_now_def Let_def split_def)
next
  assume "\<not> append_ok env (appends (snd (recover_loop env issues 0 st)))"
  then show "fst (recover env issues st) = Inl AppendFailed"
    by (simp add: recover_def audit_log_def checker_now_def Let_def split_def)
qed

theorem recover_result_witness:
  "returned (recover env_first_append_fails issues0 checker1) = Some \<lparr>total = 2, recovered = 1\<rparr>
   \<and> fst (recover env_no_audit issues0 checker1) = Inl AppendFailed"
  using recover_result [of env_first_append_fails issues0 checker1]
        recover_result [of env_no_audit issues0 checker1]
  by (simp add: issues0_def checker1_def env_first_append_fails_def env_no_audit_def env0_def
      recover_issue_def completeOperation_def syncFileToMemory_def cache_get_def cache_set_def
      audit_log_def checker_now_def src1_def mk_doc_def mk_metadata_def js_def Let_def)

text \<open>
  The claim as stated fails: with an audit file that cannot be written, \<open>recover\<close> on the
  empty list of issues throws.
\<close>

theorem recover_raises_counterexample:
  "recover env_no_audit [] checker0
     = (Inl AppendFailed, checker0\<lparr>appends := 1, clock_reads := 1\<rparr>)"
  by (simp add: recover_def audit_log_def checker_now_def env_no_audit_def env0_def checker0_def Let_def)


end
